theory Spec2Isabelle
  imports Complex_Main
begin

section \<open>Electional astrology scoring: a shallow embedding of main.py\<close>

text \<open>
  The theory follows \<^verbatim>\<open>src/main.py\<close> function by function and keeps its names.
  Python floats (longitudes, speeds, Julian days) are read as real numbers, Python ints
  as \<open>int\<close>. A dictionary with a fixed set of keys is a record, a dictionary used as a
  table is an association list read with \<open>map_of\<close>. A Python exception is the \<open>Inl\<close> side of a
  sum; \<open>None\<close> returned by the source is \<open>None\<close>.

  Non-ASCII letters of the source's string literals are written as their UTF-8 bytes.
\<close>

subsection \<open>Python primitives used by the source\<close>

datatype excepcion = ValueError | OverflowError | KeyError | IndexError | HTTPException nat

text \<open>Sequencing of two computations that may raise: the first exception wins.\<close>

definition ligar :: "excepcion + 'a \<Rightarrow> ('a \<Rightarrow> excepcion + 'b) \<Rightarrow> excepcion + 'b" where
  "ligar m f = (case m of Inl e \<Rightarrow> Inl e | Inr x \<Rightarrow> f x)"

text \<open>\<^verbatim>\<open>int(x)\<close> on a float truncates towards zero.\<close>

definition py_int :: "real \<Rightarrow> int" where
  "py_int x = (if 0 \<le> x then \<lfloor>x\<rfloor> else \<lceil>x\<rceil>)"

text \<open>\<^verbatim>\<open>x % y\<close> on floats, for a positive \<open>y\<close>: the result has the sign of \<open>y\<close>.\<close>

definition py_mod :: "real \<Rightarrow> real \<Rightarrow> real" where
  "py_mod x y = x - y * of_int \<lfloor>x / y\<rfloor>"

text \<open>\<^verbatim>\<open>xs[i]\<close>: a negative index counts from the end, an index out of range raises
  IndexError (here \<open>None\<close>).\<close>

definition py_index :: "'a list \<Rightarrow> int \<Rightarrow> 'a option" where
  "py_index xs i =
     (if 0 \<le> i \<and> i < int (length xs) then Some (xs ! nat i)
      else if - int (length xs) \<le> i \<and> i < 0 then Some (xs ! nat (int (length xs) + i))
      else None)"

text \<open>\<^verbatim>\<open>xs.index(x)\<close>: the first position of \<open>x\<close>, ValueError (here \<open>None\<close>) when absent.\<close>

fun list_index :: "'a list \<Rightarrow> 'a \<Rightarrow> nat option" where
  "list_index [] x = None"
| "list_index (y # ys) x =
     (if y = x then Some 0 else map_option Suc (list_index ys x))"

text \<open>\<^verbatim>\<open>s.lower()\<close> on the strings the source applies it to: the ASCII capitals become
  small letters; every other byte (the accented letters are small already) stays.\<close>

definition lower_char :: "char \<Rightarrow> char" where
  "lower_char c =
     (let n = (of_char c :: nat) in if 65 \<le> n \<and> n \<le> 90 then char_of (n + 32) else c)"

definition lower :: "string \<Rightarrow> string" where
  "lower s = map lower_char s"

subsection \<open>Astrological constants\<close>

datatype planeta = SUN | MOON | MERCURY | VENUS | MARS | JUPITER | SATURN | URANUS | NEPTUNE

definition Geminis :: string where
  "Geminis = ''G'' @ [CHR 0xC3, CHR 0xA9] @ ''minis''"

definition Cancer :: string where
  "Cancer = ''C'' @ [CHR 0xC3, CHR 0xA1] @ ''ncer''"

definition SIGNOS :: "string list" where
  "SIGNOS = [''Aries'', ''Tauro'', Geminis, Cancer, ''Leo'', ''Virgo'',
             ''Libra'', ''Escorpio'', ''Sagitario'', ''Capricornio'', ''Acuario'', ''Piscis'']"

definition Jupiter_n :: string where
  "Jupiter_n = ''J'' @ [CHR 0xC3, CHR 0xBA] @ ''piter''"

definition ORDEN_HORAS_PLANETARIAS :: "string list" where
  "ORDEN_HORAS_PLANETARIAS =
     [''Saturno'', Jupiter_n, ''Marte'', ''Sol'', ''Venus'', ''Mercurio'', ''Luna'']"

definition REGENTES_DIAS :: "(int \<times> string) list" where
  "REGENTES_DIAS =
     [(0, ''Luna''), (1, ''Marte''), (2, ''Mercurio''), (3, Jupiter_n),
      (4, ''Venus''), (5, ''Saturno''), (6, ''Sol'')]"

definition VIA_COMBUSTA_INICIO :: real where
  "VIA_COMBUSTA_INICIO = 195"

definition VIA_COMBUSTA_FIN :: real where
  "VIA_COMBUSTA_FIN = 225"

record proyecto =
  casas :: "nat list"
  planetas :: "planeta list"
  descripcion :: string

definition TIPOS_PROYECTO :: "(string \<times> proyecto) list" where
  "TIPOS_PROYECTO =
     [(''negocio'', \<lparr>casas = [1, 2, 10, 11], planetas = [JUPITER, SUN, MERCURY],
                    descripcion = ''Negocio / Empresa''\<rparr>),
      (''tienda'', \<lparr>casas = [2, 7, 10], planetas = [MERCURY, JUPITER, VENUS],
                   descripcion = ''Tienda / Comercio''\<rparr>),
      (''contrato'', \<lparr>casas = [7, 3, 9], planetas = [MERCURY, JUPITER],
                     descripcion = ''Contrato / Acuerdo''\<rparr>),
      (''inversion'', \<lparr>casas = [2, 5, 8, 11], planetas = [JUPITER, VENUS],
                      descripcion = ''Inversi'' @ [CHR 0xC3, CHR 0xB3] @ ''n''\<rparr>),
      (''lanzamiento'', \<lparr>casas = [1, 10, 11], planetas = [SUN, JUPITER, MARS],
                        descripcion = ''Lanzamiento de Producto''\<rparr>),
      (''sociedad'', \<lparr>casas = [7, 11], planetas = [JUPITER, VENUS],
                     descripcion = ''Sociedad / Partnership''\<rparr>),
      (''web'', \<lparr>casas = [3, 9, 11], planetas = [MERCURY, URANUS],
                descripcion = ''Sitio Web / App''\<rparr>),
      (''otro'', \<lparr>casas = [1, 10, 11], planetas = [JUPITER, VENUS],
                 descripcion = ''Proyecto General''\<rparr>)]"

definition PESOS :: "(string \<times> int) list" where
  "PESOS =
     [(''luna_creciente'', 15), (''luna_menguante'', - 10),
      (''luna_vacia_curso'', - 25), (''via_combusta'', - 20),
      (''mercurio_retrogrado'', - 20), (''mercurio_directo'', 10),
      (''luna_conjuncion_jupiter'', 15), (''luna_trigono_jupiter'', 15),
      (''luna_sextil_jupiter'', 12), (''luna_conjuncion_venus'', 12),
      (''luna_trigono_venus'', 12), (''luna_sextil_venus'', 10),
      (''luna_cuadratura_marte'', - 15), (''luna_oposicion_marte'', - 15),
      (''luna_conjuncion_marte'', - 12), (''luna_cuadratura_saturno'', - 15),
      (''luna_oposicion_saturno'', - 15), (''luna_conjuncion_saturno'', - 12),
      (''luna_signo_favorable'', 8), (''sol_trigono_luna'', 10), (''sol_sextil_luna'', 8)]"

text \<open>\<^verbatim>\<open>PESOS[k]\<close> raises KeyError on a missing key; \<^verbatim>\<open>PESOS.get(k, d)\<close> returns \<open>d\<close>.\<close>

definition peso :: "string \<Rightarrow> excepcion + int" where
  "peso k = (case map_of PESOS k of None \<Rightarrow> Inl KeyError | Some v \<Rightarrow> Inr v)"

definition PESOS_get :: "string \<Rightarrow> int \<Rightarrow> int" where
  "PESOS_get k d = (case map_of PESOS k of None \<Rightarrow> d | Some v \<Rightarrow> v)"

subsection \<open>Positions\<close>

text \<open>
  The ephemeris \<^verbatim>\<open>swe.calc_ut\<close> is outside the repository and is a parameter: at a Julian
  day and for a body it returns the tuple of coordinates (longitude first, speed in
  longitude fourth), or raises (\<open>None\<close>).
\<close>

type_synonym efemerides = "real \<Rightarrow> planeta \<Rightarrow> real list option"

record posicion =
  longitud :: real
  signo :: string
  numero_signo :: int
  grado :: real
  velocidad :: real
  retrogrado :: bool

text \<open>Every exception inside \<^verbatim>\<open>obtener_posicion_planeta\<close> is caught and turned into
  \<^verbatim>\<open>None\<close>: a failing ephemeris, an empty tuple, a sign index out of range.\<close>

definition obtener_posicion_planeta :: "efemerides \<Rightarrow> real \<Rightarrow> planeta \<Rightarrow> posicion option" where
  "obtener_posicion_planeta swe dia_juliano planeta =
     (case swe dia_juliano planeta of
        None \<Rightarrow> None
      | Some pos \<Rightarrow>
          (case pos of
             [] \<Rightarrow> None
           | lon # _ \<Rightarrow>
               (let numero = py_int (lon / 30);
                    gr = py_mod lon 30;
                    vel = (if length pos > 3 then pos ! 3 else 0)
                in case py_index SIGNOS numero of
                     None \<Rightarrow> None
                   | Some s \<Rightarrow>
                       Some \<lparr>longitud = lon, signo = s, numero_signo = numero, grado = gr,
                             velocidad = vel, retrogrado = (vel < 0)\<rparr>)))"

subsection \<open>Via Combusta\<close>

definition esta_en_via_combusta :: "real \<Rightarrow> bool" where
  "esta_en_via_combusta lon \<longleftrightarrow> VIA_COMBUSTA_INICIO \<le> lon \<and> lon \<le> VIA_COMBUSTA_FIN"

subsection \<open>Lunar phase\<close>

record fase_lunar =
  fase :: string
  creciente :: bool
  angulo :: "real option"

text \<open>The chain of comparisons of \<^verbatim>\<open>obtener_fase_lunar\<close> on the Sun-Moon separation.\<close>

definition determinar_fase :: "real \<Rightarrow> string \<times> bool" where
  "determinar_fase diferencia =
     (if diferencia < 45 then (''Nueva'', True)
      else if diferencia < 90 then (''Creciente'', True)
      else if diferencia < 135 then (''Cuarto Creciente'', True)
      else if diferencia < 180 then (''Gibosa Creciente'', True)
      else if diferencia < 225 then (''Llena'', False)
      else if diferencia < 270 then (''Gibosa Menguante'', False)
      else if diferencia < 315 then (''Cuarto Menguante'', False)
      else (''Menguante'', False))"

text \<open>When the Sun or the Moon is unavailable the dictionary has no \<^verbatim>\<open>angulo\<close> key.\<close>

definition obtener_fase_lunar :: "efemerides \<Rightarrow> real \<Rightarrow> fase_lunar" where
  "obtener_fase_lunar swe dia_juliano =
     (case (obtener_posicion_planeta swe dia_juliano SUN,
            obtener_posicion_planeta swe dia_juliano MOON) of
        (Some sol, Some luna) \<Rightarrow>
          (let diferencia = py_mod (longitud luna - longitud sol) 360;
               fc = determinar_fase diferencia
           in \<lparr>fase = fst fc, creciente = snd fc, angulo = Some diferencia\<rparr>)
      | _ \<Rightarrow> \<lparr>fase = ''desconocida'', creciente = False, angulo = None\<rparr>)"

subsection \<open>Void of course\<close>

text \<open>The shorter arc between two longitudes, as both \<^verbatim>\<open>esta_luna_vacia_de_curso\<close> and
  \<^verbatim>\<open>calcular_aspecto\<close> compute it.\<close>

definition arco :: "real \<Rightarrow> real \<Rightarrow> real" where
  "arco l1 l2 = (let diferencia = \<bar>l1 - l2\<bar>
                 in if diferencia > 180 then 360 - diferencia else diferencia)"

text \<open>The inner loop over the aspect angles; \<^verbatim>\<open>break\<close> leaves it with the flag set.\<close>

fun bucle_aspectos :: "real \<Rightarrow> real \<Rightarrow> real list \<Rightarrow> bool \<Rightarrow> bool" where
  "bucle_aspectos diferencia vel [] tiene = tiene"
| "bucle_aspectos diferencia vel (aspecto # resto) tiene =
     (if \<bar>diferencia - aspecto\<bar> < 3
      then (if vel > 0 then True else bucle_aspectos diferencia vel resto tiene)
      else bucle_aspectos diferencia vel resto tiene)"

text \<open>The outer loop over the bodies; an unavailable body is passed over.\<close>

fun bucle_planetas :: "efemerides \<Rightarrow> real \<Rightarrow> posicion \<Rightarrow> planeta list \<Rightarrow> bool \<Rightarrow> bool" where
  "bucle_planetas swe dia_juliano luna [] tiene = tiene"
| "bucle_planetas swe dia_juliano luna (planeta # resto) tiene =
     (case obtener_posicion_planeta swe dia_juliano planeta of
        None \<Rightarrow> bucle_planetas swe dia_juliano luna resto tiene
      | Some pos_planeta \<Rightarrow>
          bucle_planetas swe dia_juliano luna resto
            (bucle_aspectos (arco (longitud luna) (longitud pos_planeta)) (velocidad luna)
               [0, 60, 90, 120, 180] tiene))"

definition esta_luna_vacia_de_curso :: "efemerides \<Rightarrow> real \<Rightarrow> bool" where
  "esta_luna_vacia_de_curso swe dia_juliano =
     (case obtener_posicion_planeta swe dia_juliano MOON of
        None \<Rightarrow> False
      | Some luna \<Rightarrow>
          (if grado luna > 27
           then \<not> bucle_planetas swe dia_juliano luna
                    [SUN, MERCURY, VENUS, MARS, JUPITER, SATURN] False
           else False))"

subsection \<open>Aspects\<close>

definition Conjuncion :: string where
  "Conjuncion = ''Conjunci'' @ [CHR 0xC3, CHR 0xB3] @ ''n''"

definition Trigono :: string where
  "Trigono = ''Tr'' @ [CHR 0xC3, CHR 0xAD] @ ''gono''"

definition Oposicion :: string where
  "Oposicion = ''Oposici'' @ [CHR 0xC3, CHR 0xB3] @ ''n''"

text \<open>The display symbol of an aspect is determined by its name and is left out.\<close>

record aspecto =
  nombre_aspecto :: string
  angulo_aspecto :: real
  orbe :: real
  exacto :: bool

text \<open>The table of aspects in the order the dictionary is iterated: angle, name, orb.\<close>

definition ASPECTOS :: "(real \<times> string \<times> real) list" where
  "ASPECTOS = [(0, Conjuncion, 8), (60, ''Sextil'', 6), (90, ''Cuadratura'', 7),
               (120, Trigono, 8), (180, Oposicion, 8)]"

fun buscar_aspecto :: "real \<Rightarrow> (real \<times> string \<times> real) list \<Rightarrow> aspecto option" where
  "buscar_aspecto diferencia [] = None"
| "buscar_aspecto diferencia ((ang, nombre, orb) # resto) =
     (if \<bar>diferencia - ang\<bar> \<le> orb
      then Some \<lparr>nombre_aspecto = nombre, angulo_aspecto = ang,
                  orbe = \<bar>diferencia - ang\<bar>, exacto = (\<bar>diferencia - ang\<bar> < 1)\<rparr>
      else buscar_aspecto diferencia resto)"

definition calcular_aspecto :: "efemerides \<Rightarrow> real \<Rightarrow> planeta \<Rightarrow> planeta \<Rightarrow> aspecto option" where
  "calcular_aspecto swe dia_juliano planeta1 planeta2 =
     (case (obtener_posicion_planeta swe dia_juliano planeta1,
            obtener_posicion_planeta swe dia_juliano planeta2) of
        (Some pos1, Some pos2) \<Rightarrow> buscar_aspecto (arco (longitud pos1) (longitud pos2)) ASPECTOS
      | _ \<Rightarrow> None)"

subsection \<open>Planetary hours\<close>

text \<open>
  A date is its proleptic Gregorian ordinal (\<^verbatim>\<open>datetime.toordinal\<close>, day 1 is 0001-01-01, a
  Monday); every \<^verbatim>\<open>datetime\<close> of the source is at midnight. The last date Python
  represents is 9999-12-31; a \<^verbatim>\<open>timedelta\<close> that leaves the range raises OverflowError.
\<close>

definition MAXORD :: int where
  "MAXORD = 3652059"

definition sumar_dias :: "int \<Rightarrow> int \<Rightarrow> excepcion + int" where
  "sumar_dias fecha n =
     (if fecha + n < 1 \<or> MAXORD < fecha + n then Inl OverflowError else Inr (fecha + n))"

definition weekday :: "int \<Rightarrow> int" where
  "weekday fecha = (fecha + 6) mod 7"

record hora =
  hora_inicio :: nat
  hora_fin :: nat
  planeta_hora :: string
  favorable :: bool
  tipo_hora :: string

text \<open>The index into the Chaldean order is taken modulo 7, the length of the list.\<close>

definition obtener_horas_planetarias ::
  "int \<Rightarrow> real option \<Rightarrow> real option \<Rightarrow> excepcion + hora list" where
  "obtener_horas_planetarias fecha latitud longitud_geo =
     (case map_of REGENTES_DIAS (weekday fecha) of
        None \<Rightarrow> Inl KeyError
      | Some regente_dia \<Rightarrow>
          (case list_index ORDEN_HORAS_PLANETARIAS regente_dia of
             None \<Rightarrow> Inl ValueError
           | Some indice_inicio \<Rightarrow>
               Inr (map (\<lambda>i. let pl = ORDEN_HORAS_PLANETARIAS ! ((indice_inicio + i) mod 7)
                            in \<lparr>hora_inicio = 6 + i, hora_fin = 6 + i + 1, planeta_hora = pl,
                                favorable = (pl \<in> set [Jupiter_n, ''Venus'', ''Sol'']),
                                tipo_hora = ''diurna''\<rparr>)
                      [0 ..< 12])))"

text \<open>
  An entry of \<^verbatim>\<open>mejores_horas\<close>: \<open>HoraDe a b p\<close> is the text
  \<^verbatim>\<open>"a:00 - b:00 (Hora de p)"\<close>, \<open>Aviso\<close> is the fixed warning about the hours of Mars and
  Saturn.
\<close>

datatype texto_hora = HoraDe nat nat string | Aviso

definition obtener_mejores_horas ::
  "int \<Rightarrow> real option \<Rightarrow> real option \<Rightarrow> excepcion + texto_hora list" where
  "obtener_mejores_horas fecha lat lon =
     ligar (obtener_horas_planetarias fecha lat lon)
       (\<lambda>horas. Inr (take 3 (map (\<lambda>h. HoraDe (hora_inicio h) (hora_fin h) (planeta_hora h))
                               (filter (\<lambda>h. favorable h \<and> tipo_hora h = ''diurna'') horas))))"

subsection \<open>Scoring\<close>

text \<open>
  The text of a factor, one constructor for each format string of
  \<^verbatim>\<open>calcular_puntaje_fecha\<close>, with the values the string is formatted from.
\<close>

datatype texto =
    TxtLuna string
  | TxtVaciaCurso
  | TxtViaCombusta real string
  | TxtMercurioRetrogrado
  | TxtMercurioDirecto
  | TxtLunaJupiter string
  | TxtLunaVenus string
  | TxtLunaMarte string
  | TxtLunaSaturno string
  | TxtLunaEn string
  | TxtSolLuna string

record factor =
  texto :: texto
  tipo :: string

text \<open>The two local variables every rule updates: \<^verbatim>\<open>puntaje\<close> and \<^verbatim>\<open>factores\<close>.\<close>

type_synonym estado = "int \<times> factor list"

text \<open>\<^verbatim>\<open>puntaje += w; factores.append(f)\<close>\<close>

definition aplicar :: "int \<Rightarrow> factor \<Rightarrow> estado \<Rightarrow> estado" where
  "aplicar w f st = (fst st + w, snd st @ [f])"

definition regla_fase :: "fase_lunar \<Rightarrow> estado \<Rightarrow> excepcion + estado" where
  "regla_fase fl st =
     (if creciente fl
      then ligar (peso ''luna_creciente'')
             (\<lambda>w. Inr (aplicar w \<lparr>texto = TxtLuna (fase fl), tipo = ''positive''\<rparr> st))
      else ligar (peso ''luna_menguante'')
             (\<lambda>w. Inr (aplicar w \<lparr>texto = TxtLuna (fase fl), tipo = ''negative''\<rparr> st)))"

definition regla_vacia_curso :: "bool \<Rightarrow> estado \<Rightarrow> excepcion + estado" where
  "regla_vacia_curso vacia st =
     (if vacia
      then ligar (peso ''luna_vacia_curso'')
             (\<lambda>w. Inr (aplicar w \<lparr>texto = TxtVaciaCurso, tipo = ''negative''\<rparr> st))
      else Inr st)"

definition regla_via_combusta :: "posicion option \<Rightarrow> estado \<Rightarrow> excepcion + estado" where
  "regla_via_combusta luna st =
     (case luna of
        None \<Rightarrow> Inr st
      | Some l \<Rightarrow>
          (if esta_en_via_combusta (longitud l)
           then ligar (peso ''via_combusta'')
                  (\<lambda>w. Inr (aplicar w \<lparr>texto = TxtViaCombusta (grado l) (signo l),
                                        tipo = ''negative''\<rparr> st))
           else Inr st))"

text \<open>\<^verbatim>\<open>if mercurio and mercurio["retrogrado"]: ... else: ...\<close>\<close>

definition regla_mercurio :: "posicion option \<Rightarrow> estado \<Rightarrow> excepcion + estado" where
  "regla_mercurio mercurio st =
     (if (case mercurio of None \<Rightarrow> False | Some m \<Rightarrow> retrogrado m)
      then ligar (peso ''mercurio_retrogrado'')
             (\<lambda>w. Inr (aplicar w \<lparr>texto = TxtMercurioRetrogrado, tipo = ''negative''\<rparr> st))
      else ligar (peso ''mercurio_directo'')
             (\<lambda>w. Inr (aplicar w \<lparr>texto = TxtMercurioDirecto, tipo = ''positive''\<rparr> st)))"

definition regla_jupiter :: "aspecto option \<Rightarrow> estado \<Rightarrow> excepcion + estado" where
  "regla_jupiter asp st =
     (case asp of
        None \<Rightarrow> Inr st
      | Some a \<Rightarrow>
          (if nombre_aspecto a \<in> set [Conjuncion, Trigono, ''Sextil'']
           then Inr (aplicar (PESOS_get (''luna_'' @ lower (nombre_aspecto a) @ ''_jupiter'') 12)
                       \<lparr>texto = TxtLunaJupiter (nombre_aspecto a), tipo = ''positive''\<rparr> st)
           else if nombre_aspecto a \<in> set [''Cuadratura'', Oposicion]
           then Inr (aplicar (- 5)
                       \<lparr>texto = TxtLunaJupiter (nombre_aspecto a), tipo = ''neutral''\<rparr> st)
           else Inr st))"

definition regla_venus :: "aspecto option \<Rightarrow> estado \<Rightarrow> excepcion + estado" where
  "regla_venus asp st =
     (case asp of
        None \<Rightarrow> Inr st
      | Some a \<Rightarrow>
          (if nombre_aspecto a \<in> set [Conjuncion, Trigono, ''Sextil'']
           then Inr (aplicar 10
                       \<lparr>texto = TxtLunaVenus (nombre_aspecto a), tipo = ''positive''\<rparr> st)
           else Inr st))"

definition regla_marte :: "aspecto option \<Rightarrow> estado \<Rightarrow> excepcion + estado" where
  "regla_marte asp st =
     (case asp of
        None \<Rightarrow> Inr st
      | Some a \<Rightarrow>
          (if nombre_aspecto a \<in> set [Conjuncion, ''Cuadratura'', Oposicion]
           then ligar (peso ''luna_cuadratura_marte'')
                  (\<lambda>w. Inr (aplicar w \<lparr>texto = TxtLunaMarte (nombre_aspecto a),
                                        tipo = ''negative''\<rparr> st))
           else Inr st))"

definition regla_saturno :: "aspecto option \<Rightarrow> estado \<Rightarrow> excepcion + estado" where
  "regla_saturno asp st =
     (case asp of
        None \<Rightarrow> Inr st
      | Some a \<Rightarrow>
          (if nombre_aspecto a \<in> set [Conjuncion, ''Cuadratura'', Oposicion]
           then ligar (peso ''luna_cuadratura_saturno'')
                  (\<lambda>w. Inr (aplicar w \<lparr>texto = TxtLunaSaturno (nombre_aspecto a),
                                        tipo = ''negative''\<rparr> st))
           else Inr st))"

definition signos_favorables :: "string list" where
  "signos_favorables = [''Tauro'', Cancer, ''Virgo'', ''Capricornio'', ''Piscis'']"

definition regla_signo :: "posicion option \<Rightarrow> estado \<Rightarrow> excepcion + estado" where
  "regla_signo luna st =
     (case luna of
        None \<Rightarrow> Inr st
      | Some l \<Rightarrow>
          (if signo l \<in> set signos_favorables
           then ligar (peso ''luna_signo_favorable'')
                  (\<lambda>w. Inr (aplicar w \<lparr>texto = TxtLunaEn (signo l), tipo = ''positive''\<rparr> st))
           else Inr st))"

definition regla_sol_luna :: "aspecto option \<Rightarrow> estado \<Rightarrow> excepcion + estado" where
  "regla_sol_luna asp st =
     (case asp of
        None \<Rightarrow> Inr st
      | Some a \<Rightarrow>
          (if nombre_aspecto a \<in> set [Trigono, ''Sextil'']
           then ligar (peso ''sol_trigono_luna'')
                  (\<lambda>w. Inr (aplicar w \<lparr>texto = TxtSolLuna (nombre_aspecto a),
                                        tipo = ''positive''\<rparr> st))
           else Inr st))"

text \<open>The thresholds of the level, on the clamped score.\<close>

definition determinar_nivel :: "int \<Rightarrow> string" where
  "determinar_nivel p =
     (if p \<ge> 80 then ''excellent''
      else if p \<ge> 60 then ''good''
      else if p \<ge> 40 then ''caution''
      else ''avoid'')"

record analisis =
  puntaje :: int
  nivel :: string
  factores :: "factor list"

text \<open>The rules in the order of the source, from the base score 50 and no factor; the
  result is the accumulated score before \<^verbatim>\<open>max(0, min(100, puntaje))\<close> and the factors.\<close>

definition acumular_reglas :: "efemerides \<Rightarrow> real \<Rightarrow> excepcion + estado" where
  "acumular_reglas swe dia_juliano =
     (let luna = obtener_posicion_planeta swe dia_juliano MOON;
          mercurio = obtener_posicion_planeta swe dia_juliano MERCURY;
          fl = obtener_fase_lunar swe dia_juliano
      in
      ligar (regla_fase fl (50, [])) (\<lambda>st.
      ligar (regla_vacia_curso (esta_luna_vacia_de_curso swe dia_juliano) st) (\<lambda>st.
      ligar (regla_via_combusta luna st) (\<lambda>st.
      ligar (regla_mercurio mercurio st) (\<lambda>st.
      ligar (regla_jupiter (calcular_aspecto swe dia_juliano MOON JUPITER) st) (\<lambda>st.
      ligar (regla_venus (calcular_aspecto swe dia_juliano MOON VENUS) st) (\<lambda>st.
      ligar (regla_marte (calcular_aspecto swe dia_juliano MOON MARS) st) (\<lambda>st.
      ligar (regla_saturno (calcular_aspecto swe dia_juliano MOON SATURN) st) (\<lambda>st.
      ligar (regla_signo luna st) (\<lambda>st.
      regla_sol_luna (calcular_aspecto swe dia_juliano SUN MOON) st))))))))))"

definition calcular_puntaje_fecha ::
  "efemerides \<Rightarrow> real \<Rightarrow> string \<Rightarrow> real option \<Rightarrow> real option \<Rightarrow> excepcion + analisis" where
  "calcular_puntaje_fecha swe dia_juliano tipo_proyecto lat lon =
     ligar (acumular_reglas swe dia_juliano)
       (\<lambda>st. let p = max 0 (min 100 (fst st))
             in Inr \<lparr>puntaje = p, nivel = determinar_nivel p, factores = snd st\<rparr>)"

subsection \<open>Scanning a range of dates\<close>

text \<open>
  What the endpoint takes from outside the repository: the ephemeris, the parser
  \<^verbatim>\<open>datetime.strptime(s, "%Y-%m-%d")\<close> (the ordinal of the date, or \<open>None\<close> for
  ValueError), and \<^verbatim>\<open>swe.julday\<close> read on the year, month and day of a date and an hour.
\<close>

record entorno =
  calc_ut :: efemerides
  strptime :: "string \<Rightarrow> int option"
  julday :: "int \<Rightarrow> real \<Rightarrow> real"

record solicitud =
  nombre :: string
  tipo_proyecto :: string
  fecha_desde :: string
  fecha_hasta :: string
  latitud :: "real option"
  longitud_geo :: "real option"

text \<open>
  \<^verbatim>\<open>ResultadoFecha\<close>: the fields \<^verbatim>\<open>puntaje\<close>, \<^verbatim>\<open>nivel\<close> and \<^verbatim>\<open>factores\<close> are
  those of the analysis; \<^verbatim>\<open>dia\<close>, \<^verbatim>\<open>dia_semana\<close>, \<^verbatim>\<open>mes\<close> and \<^verbatim>\<open>fecha_completa\<close>
  are renderings of the scanned date, kept here as \<open>fecha\<close>.
\<close>

record resultado_fecha = analisis +
  fecha :: int
  mejores_horas :: "texto_hora list"

text \<open>\<^verbatim>\<open>RespuestaElectiva\<close>, without the constant list \<^verbatim>\<open>reglas_aplicadas\<close>.\<close>

record respuesta =
  estado :: string
  nombre_r :: string
  tipo_proyecto_r :: string
  descripcion_tipo :: string
  fechas :: "resultado_fecha list"

definition parsear :: "entorno \<Rightarrow> string \<Rightarrow> excepcion + int" where
  "parsear env s = (case strptime env s of None \<Rightarrow> Inl ValueError | Some f \<Rightarrow> Inr f)"

definition obtener_dia_juliano :: "entorno \<Rightarrow> int \<Rightarrow> real \<Rightarrow> real" where
  "obtener_dia_juliano env f h = julday env f h"

text \<open>The body of the \<^verbatim>\<open>while\<close> loop for one day, up to the appended result.\<close>

definition analizar_fecha :: "entorno \<Rightarrow> solicitud \<Rightarrow> int \<Rightarrow> excepcion + resultado_fecha" where
  "analizar_fecha env sol fecha_actual =
     (let dia_juliano = obtener_dia_juliano env fecha_actual 12 in
      ligar (calcular_puntaje_fecha (calc_ut env) dia_juliano (tipo_proyecto sol)
               (latitud sol) (longitud_geo sol)) (\<lambda>an.
      ligar (obtener_mejores_horas fecha_actual (latitud sol) (longitud_geo sol)) (\<lambda>mh.
        let mh' = (if nivel an = ''avoid'' then []
                   else if nivel an = ''caution'' then [Aviso]
                   else mh)
        in Inr \<lparr>puntaje = puntaje an, nivel = nivel an, factores = factores an,
                 fecha = fecha_actual, mejores_horas = mh'\<rparr>)))"

function bucle_fechas ::
  "entorno \<Rightarrow> solicitud \<Rightarrow> int \<Rightarrow> int \<Rightarrow> resultado_fecha list
     \<Rightarrow> excepcion + resultado_fecha list" where
  "bucle_fechas env sol fecha_actual hasta resultados =
     (if fecha_actual \<le> hasta
      then (case analizar_fecha env sol fecha_actual of
              Inl e \<Rightarrow> Inl e
            | Inr r \<Rightarrow>
                (case sumar_dias fecha_actual 1 of
                   Inl e \<Rightarrow> Inl e
                 | Inr siguiente \<Rightarrow>
                     bucle_fechas env sol siguiente hasta (resultados @ [r])))
      else Inr resultados)"
  by pat_completeness auto
termination
  by (relation "measure (\<lambda>(env, sol, f, h, rs). nat (h - f + 1))")
     (auto simp: sumar_dias_def split: if_splits)

text \<open>\<^verbatim>\<open>resultados.sort(key=lambda x: x.puntaje, reverse=True)\<close>: Python's sort is stable,
  also with \<^verbatim>\<open>reverse=True\<close>; so is \<open>sort_key\<close> on the negated score.\<close>

definition ordenar :: "resultado_fecha list \<Rightarrow> resultado_fecha list" where
  "ordenar resultados = sort_key (\<lambda>x. - puntaje x) resultados"

text \<open>The \<^verbatim>\<open>try\<close> block of \<^verbatim>\<open>calcular_electiva\<close>.\<close>

definition cuerpo_electiva :: "entorno \<Rightarrow> solicitud \<Rightarrow> excepcion + respuesta" where
  "cuerpo_electiva env sol =
     ligar (parsear env (fecha_desde sol)) (\<lambda>desde.
     ligar (parsear env (fecha_hasta sol)) (\<lambda>hasta0.
     ligar (if hasta0 - desde > 60 then sumar_dias desde 60 else Inr hasta0) (\<lambda>hasta.
     ligar (case map_of TIPOS_PROYECTO ''otro'' of
              None \<Rightarrow> Inl KeyError | Some otro \<Rightarrow> Inr otro) (\<lambda>otro.
       let info_proyecto = (case map_of TIPOS_PROYECTO (tipo_proyecto sol) of
                              None \<Rightarrow> otro | Some i \<Rightarrow> i)
       in
       ligar (bucle_fechas env sol desde hasta []) (\<lambda>resultados.
         Inr \<lparr>estado = ''exito'', nombre_r = nombre sol,
               tipo_proyecto_r = tipo_proyecto sol,
               descripcion_tipo = descripcion info_proyecto,
               fechas = take 10 (ordenar resultados)\<rparr>)))))"

text \<open>\<^verbatim>\<open>except Exception as e: raise HTTPException(status_code=500, ...)\<close>\<close>

definition calcular_electiva :: "entorno \<Rightarrow> solicitud \<Rightarrow> excepcion + respuesta" where
  "calcular_electiva env sol =
     (case cuerpo_electiva env sol of
        Inl e \<Rightarrow> Inl (HTTPException 500)
      | Inr r \<Rightarrow> Inr r)"

subsection \<open>Notions used in the statements\<close>

text \<open>The eight phases in their cyclic order, one for each band of 45 degrees.\<close>

definition fases_en_orden :: "string list" where
  "fases_en_orden = [''Nueva'', ''Creciente'', ''Cuarto Creciente'', ''Gibosa Creciente'',
                     ''Llena'', ''Gibosa Menguante'', ''Cuarto Menguante'', ''Menguante'']"

text \<open>The bodies and the angles of the void-of-course test.\<close>

definition seis_cuerpos :: "planeta list" where
  "seis_cuerpos = [SUN, MERCURY, VENUS, MARS, JUPITER, SATURN]"

definition cinco_angulos :: "real list" where
  "cinco_angulos = [0, 60, 90, 120, 180]"

text \<open>Some aspect of orb below 3 degrees between the Moon and one of the bodies.\<close>

definition hay_aspecto_estrecho :: "efemerides \<Rightarrow> real \<Rightarrow> posicion \<Rightarrow> planeta list \<Rightarrow> bool" where
  "hay_aspecto_estrecho swe jd luna cuerpos \<longleftrightarrow>
     (\<exists>p \<in> set cuerpos. \<exists>pos. obtener_posicion_planeta swe jd p = Some pos
        \<and> (\<exists>a \<in> set cinco_angulos. \<bar>arco (longitud luna) (longitud pos) - a\<bar> < 3))"

text \<open>The order of the returned list: a higher score first, and among equal scores the
  earlier date first.\<close>

definition antes :: "resultado_fecha \<Rightarrow> resultado_fecha \<Rightarrow> bool" where
  "antes a b \<longleftrightarrow> puntaje a > puntaje b \<or> (puntaje a = puntaje b \<and> fecha a < fecha b)"

text \<open>A state extends another when its factors are the other's, followed by more. A
  rule behaves well from a state when it returns, and returns a state that extends it.\<close>

definition extiende :: "estado \<Rightarrow> estado \<Rightarrow> bool" where
  "extiende st st' \<longleftrightarrow> (\<exists>fs. snd st' = snd st @ fs)"

definition regla_bien :: "estado \<Rightarrow> excepcion + estado \<Rightarrow> bool" where
  "regla_bien st r = (case r of Inl e \<Rightarrow> False | Inr st' \<Rightarrow> extiende st st')"

text \<open>A factor of the Mercury rule.\<close>

definition es_de_mercurio :: "factor \<Rightarrow> bool" where
  "es_de_mercurio f \<longleftrightarrow> texto f = TxtMercurioRetrogrado \<or> texto f = TxtMercurioDirecto"

text \<open>The rules with the Mercury rule left out: what the scoring would accumulate if the
  rule were skipped.\<close>

definition acumular_sin_mercurio :: "efemerides \<Rightarrow> real \<Rightarrow> excepcion + estado" where
  "acumular_sin_mercurio swe dia_juliano =
     (let luna = obtener_posicion_planeta swe dia_juliano MOON;
          fl = obtener_fase_lunar swe dia_juliano
      in
      ligar (regla_fase fl (50, [])) (\<lambda>st.
      ligar (regla_vacia_curso (esta_luna_vacia_de_curso swe dia_juliano) st) (\<lambda>st.
      ligar (regla_via_combusta luna st) (\<lambda>st.
      ligar (regla_jupiter (calcular_aspecto swe dia_juliano MOON JUPITER) st) (\<lambda>st.
      ligar (regla_venus (calcular_aspecto swe dia_juliano MOON VENUS) st) (\<lambda>st.
      ligar (regla_marte (calcular_aspecto swe dia_juliano MOON MARS) st) (\<lambda>st.
      ligar (regla_saturno (calcular_aspecto swe dia_juliano MOON SATURN) st) (\<lambda>st.
      ligar (regla_signo luna st) (\<lambda>st.
      regla_sol_luna (calcular_aspecto swe dia_juliano SUN MOON) st)))))))))"

text \<open>A rule has the effect \<open>d\<close>, \<open>fs\<close> when from every state it returns the state with
  \<open>d\<close> added to the score and \<open>fs\<close> appended to the factors.\<close>

definition efecto :: "(estado \<Rightarrow> excepcion + estado) \<Rightarrow> int \<Rightarrow> factor list \<Rightarrow> bool" where
  "efecto r d fs \<longleftrightarrow> (\<forall>st. r st = Inr (fst st + d, snd st @ fs))"

text \<open>A rule other than the Mercury rule has an effect with no factor of Mercury in it.\<close>

definition efecto_ajeno :: "(estado \<Rightarrow> excepcion + estado) \<Rightarrow> bool" where
  "efecto_ajeno r \<longleftrightarrow> (\<exists>d fs. efecto r d fs \<and> filter es_de_mercurio fs = [])"

text \<open>The response the endpoint builds from the results of the loop.\<close>

definition respuesta_de :: "solicitud \<Rightarrow> resultado_fecha list \<Rightarrow> respuesta" where
  "respuesta_de sol resultados =
     \<lparr>estado = ''exito'', nombre_r = nombre sol, tipo_proyecto_r = tipo_proyecto sol,
      descripcion_tipo =
        descripcion (case map_of TIPOS_PROYECTO (tipo_proyecto sol) of
                       None \<Rightarrow> \<lparr>casas = [1, 10, 11], planetas = [JUPITER, VENUS],
                                descripcion = ''Proyecto General''\<rparr>
                     | Some i \<Rightarrow> i),
      fechas = take 10 (ordenar resultados)\<rparr>"

subsection \<open>Example inputs\<close>

text \<open>An ephemeris given by a table, the same at every instant; a body that is not in
  the table cannot be resolved.\<close>

definition efem :: "(planeta \<times> real list) list \<Rightarrow> efemerides" where
  "efem tabla = (\<lambda>dia_juliano planeta. map_of tabla planeta)"

text \<open>Example skies. In the first the Moon is waxing and in the Via Combusta, Mercury is
  retrograde and no aspect is within orb. In the second the Moon is waning, void of course
  and in the Via Combusta, Mercury is retrograde, and Jupiter, Mars and Saturn square the
  Moon.\<close>

definition cielo_combusta :: efemerides where
  "cielo_combusta =
     efem [(SUN, [170, 0, 1, 1]), (MOON, [200, 0, 1, 13]), (MERCURY, [170, 0, 1, - 1]),
           (VENUS, [170, 0, 1, 1]), (MARS, [170, 0, 1, 1]), (JUPITER, [170, 0, 1, 1]),
           (SATURN, [170, 0, 1, 1])]"

definition cielo_adverso :: efemerides where
  "cielo_adverso =
     efem [(SUN, [20, 0, 1, 1]), (MOON, [208, 0, 1, 13]), (MERCURY, [20, 0, 1, - 1]),
           (VENUS, [113, 0, 1, 1]), (MARS, [113, 0, 1, 1]), (JUPITER, [113, 0, 1, 1]),
           (SATURN, [113, 0, 1, 1])]"

text \<open>Two skies with the Moon at 28 degrees of its sign and the Sun in conjunction with it:
  the Moon moves in the first and stands still in the second.\<close>

definition cielo_conjuncion :: efemerides where
  "cielo_conjuncion =
     efem [(SUN, [208, 0, 1, 1]), (MOON, [208, 0, 1, 13]), (MERCURY, [20, 0, 1, 1]),
           (VENUS, [113, 0, 1, 1]), (MARS, [113, 0, 1, 1]), (JUPITER, [113, 0, 1, 1]),
           (SATURN, [113, 0, 1, 1])]"

definition cielo_luna_detenida :: efemerides where
  "cielo_luna_detenida =
     efem [(SUN, [208, 0, 1, 1]), (MOON, [208, 0, 1, 0]), (MERCURY, [20, 0, 1, 1]),
           (VENUS, [113, 0, 1, 1]), (MARS, [113, 0, 1, 1]), (JUPITER, [113, 0, 1, 1]),
           (SATURN, [113, 0, 1, 1])]"

text \<open>Two skies in which one body cannot be resolved: Mercury in the first, the Sun in the
  second.\<close>

definition cielo_sin_mercurio :: efemerides where
  "cielo_sin_mercurio =
     efem [(SUN, [40, 0, 1, 1]), (MOON, [70, 0, 1, 13]),
           (VENUS, [40, 0, 1, 1]), (MARS, [40, 0, 1, 1]), (JUPITER, [40, 0, 1, 1]),
           (SATURN, [40, 0, 1, 1])]"


text \<open>A sky that changes with the instant: the sky without Mercury at noon of day 739677,
  the first example sky at every other instant.\<close>

definition cielo_alterno :: efemerides where
  "cielo_alterno =
     (\<lambda>dia_juliano planeta.
        if dia_juliano = 739677 + 1 / 2 then cielo_sin_mercurio dia_juliano planeta
        else cielo_combusta dia_juliano planeta)"

text \<open>An example environment: the changing sky, a parser that knows five dates by their
  ordinals, and a day count for the Julian day.\<close>

definition env_ejemplo :: entorno where
  "env_ejemplo =
     \<lparr>calc_ut = cielo_alterno,
      strptime = map_of [(''2026-03-01'', 739676), (''2026-03-03'', 739678),
                         (''2026-03-10'', 739685), (''2026-12-31'', 739981),
                         (''9999-12-31'', 3652059)],
      julday = (\<lambda>f h. real_of_int f + h / 24)\<rparr>"

definition sol_ejemplo :: "string \<Rightarrow> string \<Rightarrow> solicitud" where
  "sol_ejemplo desde hasta =
     \<lparr>nombre = ''Ana'', tipo_proyecto = ''negocio'', fecha_desde = desde, fecha_hasta = hasta,
      latitud = Some (- 120464 / 10000), longitud_geo = Some (- 770428 / 10000)\<rparr>"

text \<open>The results of the three days from 2026-03-01 to 2026-03-03 under the example
  environment, and the response of the scan of those days.\<close>

definition dia_evitar :: "int \<Rightarrow> resultado_fecha" where
  "dia_evitar f =
     \<lparr>puntaje = 25, nivel = ''avoid'',
      factores = [\<lparr>texto = TxtLuna ''Nueva'', tipo = ''positive''\<rparr>,
                  \<lparr>texto = TxtViaCombusta 20 ''Libra'', tipo = ''negative''\<rparr>,
                  \<lparr>texto = TxtMercurioRetrogrado, tipo = ''negative''\<rparr>],
      fecha = f, mejores_horas = []\<rparr>"

definition dia_bueno :: resultado_fecha where
  "dia_bueno =
     \<lparr>puntaje = 75, nivel = ''good'',
      factores = [\<lparr>texto = TxtLuna ''Nueva'', tipo = ''positive''\<rparr>,
                  \<lparr>texto = TxtMercurioDirecto, tipo = ''positive''\<rparr>],
      fecha = 739677,
      mejores_horas = [HoraDe 8 9 Jupiter_n, HoraDe 10 11 ''Sol'', HoraDe 11 12 ''Venus'']\<rparr>"

definition respuesta_tres_dias :: respuesta where
  "respuesta_tres_dias =
     \<lparr>estado = ''exito'', nombre_r = ''Ana'', tipo_proyecto_r = ''negocio'',
      descripcion_tipo = ''Negocio / Empresa'',
      fechas = [dia_bueno, dia_evitar 739676, dia_evitar 739678]\<rparr>"

section \<open>Properties\<close>

subsection \<open>Exceptions and weights\<close>

lemma ligar_Inr: "ligar (Inr x) f = f x"
  by (simp add: ligar_def)

lemma ligar_Inl: "ligar (Inl e) f = Inl e"
  by (simp add: ligar_def)

lemma peso_claves:
  "peso ''luna_creciente'' = Inr 15"
  "peso ''luna_menguante'' = Inr (- 10)"
  "peso ''luna_vacia_curso'' = Inr (- 25)"
  "peso ''via_combusta'' = Inr (- 20)"
  "peso ''mercurio_retrogrado'' = Inr (- 20)"
  "peso ''mercurio_directo'' = Inr 10"
  "peso ''luna_cuadratura_marte'' = Inr (- 15)"
  "peso ''luna_cuadratura_saturno'' = Inr (- 15)"
  "peso ''luna_signo_favorable'' = Inr 8"
  "peso ''sol_trigono_luna'' = Inr 10"
  by (simp_all add: peso_def PESOS_def)

text \<open>The key of the Moon-Jupiter weight is built from the lower-cased name of the aspect.
  The names of the conjunction and of the trine keep their accents, the keys of the table
  have none, so the default 12 applies; the key of the sextile is in the table, with 12.\<close>

lemma lower_nombres:
  "lower Conjuncion = ''conjunci'' @ [CHR 0xC3, CHR 0xB3] @ ''n''"
  "lower Trigono = ''tr'' @ [CHR 0xC3, CHR 0xAD] @ ''gono''"
  "lower ''Sextil'' = ''sextil''"
  by (simp_all add: lower_def lower_char_def Conjuncion_def Trigono_def char_of_def bit_0)

lemma peso_jupiter:
  "PESOS_get (''luna_'' @ lower Conjuncion @ ''_jupiter'') 12 = 12"
  "PESOS_get (''luna_'' @ lower Trigono @ ''_jupiter'') 12 = 12"
  "PESOS_get (''luna_'' @ lower ''Sextil'' @ ''_jupiter'') 12 = 12"
  by (simp_all add: lower_nombres PESOS_get_def PESOS_def)

subsection \<open>Every rule returns and only appends factors\<close>

lemma extiende_refl: "extiende st st"
  by (simp add: extiende_def)

lemma extiende_trans: "extiende a b \<Longrightarrow> extiende b c \<Longrightarrow> extiende a c"
  by (auto simp: extiende_def)

lemma extiende_aplicar: "extiende st (aplicar w f st)"
  by (simp add: extiende_def aplicar_def)

lemma regla_bien_Inr: "regla_bien st (Inr st') = extiende st st'"
  by (simp add: regla_bien_def)

lemma regla_bienD: "regla_bien st r \<Longrightarrow> \<exists>st'. r = Inr st' \<and> extiende st st'"
  by (cases r) (simp_all add: regla_bien_def)

lemmas regla_simps = peso_claves ligar_Inr regla_bien_Inr extiende_aplicar extiende_refl

lemma regla_fase_ok: "\<exists>st'. regla_fase fl st = Inr st' \<and> extiende st st'"
  by (rule regla_bienD) (simp add: regla_fase_def regla_simps)

lemma regla_vacia_curso_ok: "\<exists>st'. regla_vacia_curso v st = Inr st' \<and> extiende st st'"
  by (rule regla_bienD) (simp add: regla_vacia_curso_def regla_simps)

lemma regla_via_combusta_ok: "\<exists>st'. regla_via_combusta l st = Inr st' \<and> extiende st st'"
  by (rule regla_bienD) (simp add: regla_via_combusta_def regla_simps split: option.split)

lemma regla_mercurio_ok: "\<exists>st'. regla_mercurio m st = Inr st' \<and> extiende st st'"
  by (rule regla_bienD) (simp add: regla_mercurio_def regla_simps)

lemma regla_jupiter_ok: "\<exists>st'. regla_jupiter a st = Inr st' \<and> extiende st st'"
  by (rule regla_bienD) (simp add: regla_jupiter_def regla_simps split: option.split)

lemma regla_venus_ok: "\<exists>st'. regla_venus a st = Inr st' \<and> extiende st st'"
  by (rule regla_bienD) (simp add: regla_venus_def regla_simps split: option.split)

lemma regla_marte_ok: "\<exists>st'. regla_marte a st = Inr st' \<and> extiende st st'"
  by (rule regla_bienD) (simp add: regla_marte_def regla_simps split: option.split)

lemma regla_saturno_ok: "\<exists>st'. regla_saturno a st = Inr st' \<and> extiende st st'"
  by (rule regla_bienD) (simp add: regla_saturno_def regla_simps split: option.split)

lemma regla_signo_ok: "\<exists>st'. regla_signo l st = Inr st' \<and> extiende st st'"
  by (rule regla_bienD) (simp add: regla_signo_def regla_simps split: option.split)

lemma regla_sol_luna_ok: "\<exists>st'. regla_sol_luna a st = Inr st' \<and> extiende st st'"
  by (rule regla_bienD) (simp add: regla_sol_luna_def regla_simps split: option.split)

text \<open>The chain of rules, state by state.\<close>

lemma acumular_reglas_cadena:
  "\<exists>s1 s2 s3 s4 s5.
     regla_fase (obtener_fase_lunar swe jd) (50, []) = Inr s1
   \<and> regla_vacia_curso (esta_luna_vacia_de_curso swe jd) s1 = Inr s2
   \<and> regla_via_combusta (obtener_posicion_planeta swe jd MOON) s2 = Inr s3
   \<and> regla_mercurio (obtener_posicion_planeta swe jd MERCURY) s3 = Inr s4
   \<and> acumular_reglas swe jd = Inr s5
   \<and> extiende s1 s5 \<and> extiende s4 s5"
proof -
  obtain s1 where s1: "regla_fase (obtener_fase_lunar swe jd) (50, []) = Inr s1"
    using regla_fase_ok by blast
  obtain s2 where s2: "regla_vacia_curso (esta_luna_vacia_de_curso swe jd) s1 = Inr s2"
    and e2: "extiende s1 s2"
    using regla_vacia_curso_ok by blast
  obtain s3 where s3: "regla_via_combusta (obtener_posicion_planeta swe jd MOON) s2 = Inr s3"
    and e3: "extiende s2 s3"
    using regla_via_combusta_ok by blast
  obtain s4 where s4: "regla_mercurio (obtener_posicion_planeta swe jd MERCURY) s3 = Inr s4"
    and e4: "extiende s3 s4"
    using regla_mercurio_ok by blast
  obtain s5 where s5: "regla_jupiter (calcular_aspecto swe jd MOON JUPITER) s4 = Inr s5"
    and e5: "extiende s4 s5"
    using regla_jupiter_ok by blast
  obtain s6 where s6: "regla_venus (calcular_aspecto swe jd MOON VENUS) s5 = Inr s6"
    and e6: "extiende s5 s6"
    using regla_venus_ok by blast
  obtain s7 where s7: "regla_marte (calcular_aspecto swe jd MOON MARS) s6 = Inr s7"
    and e7: "extiende s6 s7"
    using regla_marte_ok by blast
  obtain s8 where s8: "regla_saturno (calcular_aspecto swe jd MOON SATURN) s7 = Inr s8"
    and e8: "extiende s7 s8"
    using regla_saturno_ok by blast
  obtain s9 where s9: "regla_signo (obtener_posicion_planeta swe jd MOON) s8 = Inr s9"
    and e9: "extiende s8 s9"
    using regla_signo_ok by blast
  obtain s10 where s10: "regla_sol_luna (calcular_aspecto swe jd SUN MOON) s9 = Inr s10"
    and e10: "extiende s9 s10"
    using regla_sol_luna_ok by blast
  have fin: "acumular_reglas swe jd = Inr s10"
    by (simp add: acumular_reglas_def Let_def ligar_Inr s1 s2 s3 s4 s5 s6 s7 s8 s9 s10)
  have e410: "extiende s4 s10"
    using e5 e6 e7 e8 e9 e10 extiende_trans by blast
  have e110: "extiende s1 s10"
    using e2 e3 e4 e410 extiende_trans by blast
  show ?thesis
    using s1 s2 s3 s4 fin e110 e410 by blast
qed

lemma acumular_reglas_total: "\<exists>st. acumular_reglas swe jd = Inr st"
  using acumular_reglas_cadena [of swe jd] by blast

lemma calcular_puntaje_fecha_total:
  "\<exists>an. calcular_puntaje_fecha swe jd tp lat lon = Inr an"
  using acumular_reglas_total [of swe jd]
  by (auto simp: calcular_puntaje_fecha_def ligar_Inr Let_def)



subsection \<open>The effect of each rule\<close>

lemma efecto_nada:
  assumes "\<And>st. r st = Inr st"
  shows "efecto_ajeno r"
proof -
  have "efecto r 0 []"
    using assms by (simp add: efecto_def)
  then show ?thesis
    unfolding efecto_ajeno_def by (intro exI [of _ 0] exI [of _ "[]"]) simp
qed

lemma efecto_uno:
  assumes "\<And>st. r st = Inr (aplicar w f st)" "\<not> es_de_mercurio f"
  shows "efecto_ajeno r"
proof -
  have "efecto r w [f]"
    using assms(1) by (simp add: efecto_def aplicar_def)
  then show ?thesis
    unfolding efecto_ajeno_def using assms(2) by (intro exI [of _ w] exI [of _ "[f]"]) simp
qed

lemma regla_fase_efecto: "efecto_ajeno (regla_fase fl)"
proof -
  have "regla_fase fl st =
          Inr (aplicar (if creciente fl then 15 else - 10)
                 \<lparr>texto = TxtLuna (fase fl),
                  tipo = (if creciente fl then ''positive'' else ''negative'')\<rparr> st)" for st
    by (simp add: regla_fase_def peso_claves ligar_Inr)
  then show ?thesis
    by (rule efecto_uno) (simp add: es_de_mercurio_def)
qed

lemma regla_vacia_curso_efecto: "efecto_ajeno (regla_vacia_curso v)"
proof (cases v)
  case True
  then have "regla_vacia_curso v st =
          Inr (aplicar (- 25) \<lparr>texto = TxtVaciaCurso, tipo = ''negative''\<rparr> st)" for st
    by (simp add: regla_vacia_curso_def peso_claves ligar_Inr)
  then show ?thesis
    by (rule efecto_uno) (simp add: es_de_mercurio_def)
next
  case False
  then have "regla_vacia_curso v st = Inr st" for st
    by (simp add: regla_vacia_curso_def)
  then show ?thesis
    by (rule efecto_nada)
qed

lemma regla_via_combusta_efecto: "efecto_ajeno (regla_via_combusta l)"
proof (cases "\<exists>x. l = Some x \<and> esta_en_via_combusta (longitud x)")
  case True
  then obtain x where x: "l = Some x" "esta_en_via_combusta (longitud x)"
    by blast
  have "regla_via_combusta l st =
          Inr (aplicar (- 20) \<lparr>texto = TxtViaCombusta (grado x) (signo x),
                                tipo = ''negative''\<rparr> st)" for st
    using x by (simp add: regla_via_combusta_def peso_claves ligar_Inr)
  then show ?thesis
    by (rule efecto_uno) (simp add: es_de_mercurio_def)
next
  case False
  then have "regla_via_combusta l st = Inr st" for st
    by (cases l) (simp_all add: regla_via_combusta_def)
  then show ?thesis
    by (rule efecto_nada)
qed

lemma regla_jupiter_efecto: "efecto_ajeno (regla_jupiter a)"
proof (cases a)
  case None
  then show ?thesis
    by (intro efecto_nada) (simp add: regla_jupiter_def)
next
  case (Some x)
  consider "nombre_aspecto x \<in> set [Conjuncion, Trigono, ''Sextil'']"
    | "nombre_aspecto x \<notin> set [Conjuncion, Trigono, ''Sextil'']"
      "nombre_aspecto x \<in> set [''Cuadratura'', Oposicion]"
    | "nombre_aspecto x \<notin> set [Conjuncion, Trigono, ''Sextil'']"
      "nombre_aspecto x \<notin> set [''Cuadratura'', Oposicion]"
    by blast
  then show ?thesis
  proof cases
    case 1
    have "regla_jupiter a st =
            Inr (aplicar (PESOS_get (''luna_'' @ lower (nombre_aspecto x) @ ''_jupiter'') 12)
                   \<lparr>texto = TxtLunaJupiter (nombre_aspecto x), tipo = ''positive''\<rparr> st)" for st
      using Some 1 by (simp add: regla_jupiter_def)
    then show ?thesis
      by (rule efecto_uno) (simp add: es_de_mercurio_def)
  next
    case 2
    have "regla_jupiter a st =
            Inr (aplicar (- 5)
                   \<lparr>texto = TxtLunaJupiter (nombre_aspecto x), tipo = ''neutral''\<rparr> st)" for st
      using Some 2 by (simp add: regla_jupiter_def)
    then show ?thesis
      by (rule efecto_uno) (simp add: es_de_mercurio_def)
  next
    case 3
    have "regla_jupiter a st = Inr st" for st
      using Some 3 by (simp add: regla_jupiter_def)
    then show ?thesis
      by (rule efecto_nada)
  qed
qed

lemma regla_venus_efecto: "efecto_ajeno (regla_venus a)"
proof (cases "\<exists>x. a = Some x \<and> nombre_aspecto x \<in> set [Conjuncion, Trigono, ''Sextil'']")
  case True
  then obtain x where x: "a = Some x" "nombre_aspecto x \<in> set [Conjuncion, Trigono, ''Sextil'']"
    by blast
  have "regla_venus a st =
          Inr (aplicar 10 \<lparr>texto = TxtLunaVenus (nombre_aspecto x), tipo = ''positive''\<rparr> st)"
    for st
    using x by (simp add: regla_venus_def)
  then show ?thesis
    by (rule efecto_uno) (simp add: es_de_mercurio_def)
next
  case False
  then have "regla_venus a st = Inr st" for st
    by (cases a) (simp_all add: regla_venus_def)
  then show ?thesis
    by (rule efecto_nada)
qed

lemma regla_marte_efecto: "efecto_ajeno (regla_marte a)"
proof (cases "\<exists>x. a = Some x \<and> nombre_aspecto x \<in> set [Conjuncion, ''Cuadratura'', Oposicion]")
  case True
  then obtain x where x: "a = Some x"
    "nombre_aspecto x \<in> set [Conjuncion, ''Cuadratura'', Oposicion]"
    by blast
  have "regla_marte a st =
          Inr (aplicar (- 15) \<lparr>texto = TxtLunaMarte (nombre_aspecto x), tipo = ''negative''\<rparr> st)"
    for st
    using x by (simp add: regla_marte_def peso_claves ligar_Inr)
  then show ?thesis
    by (rule efecto_uno) (simp add: es_de_mercurio_def)
next
  case False
  then have "regla_marte a st = Inr st" for st
    by (cases a) (simp_all add: regla_marte_def)
  then show ?thesis
    by (rule efecto_nada)
qed

lemma regla_saturno_efecto: "efecto_ajeno (regla_saturno a)"
proof (cases "\<exists>x. a = Some x \<and> nombre_aspecto x \<in> set [Conjuncion, ''Cuadratura'', Oposicion]")
  case True
  then obtain x where x: "a = Some x"
    "nombre_aspecto x \<in> set [Conjuncion, ''Cuadratura'', Oposicion]"
    by blast
  have "regla_saturno a st =
          Inr (aplicar (- 15) \<lparr>texto = TxtLunaSaturno (nombre_aspecto x), tipo = ''negative''\<rparr> st)"
    for st
    using x by (simp add: regla_saturno_def peso_claves ligar_Inr)
  then show ?thesis
    by (rule efecto_uno) (simp add: es_de_mercurio_def)
next
  case False
  then have "regla_saturno a st = Inr st" for st
    by (cases a) (simp_all add: regla_saturno_def)
  then show ?thesis
    by (rule efecto_nada)
qed

lemma regla_signo_efecto: "efecto_ajeno (regla_signo l)"
proof (cases "\<exists>x. l = Some x \<and> signo x \<in> set signos_favorables")
  case True
  then obtain x where x: "l = Some x" "signo x \<in> set signos_favorables"
    by blast
  have "regla_signo l st =
          Inr (aplicar 8 \<lparr>texto = TxtLunaEn (signo x), tipo = ''positive''\<rparr> st)" for st
    using x by (simp add: regla_signo_def peso_claves ligar_Inr)
  then show ?thesis
    by (rule efecto_uno) (simp add: es_de_mercurio_def)
next
  case False
  then have "regla_signo l st = Inr st" for st
    by (cases l) (simp_all add: regla_signo_def)
  then show ?thesis
    by (rule efecto_nada)
qed

lemma regla_sol_luna_efecto: "efecto_ajeno (regla_sol_luna a)"
proof (cases "\<exists>x. a = Some x \<and> nombre_aspecto x \<in> set [Trigono, ''Sextil'']")
  case True
  then obtain x where x: "a = Some x" "nombre_aspecto x \<in> set [Trigono, ''Sextil'']"
    by blast
  have "regla_sol_luna a st =
          Inr (aplicar 10 \<lparr>texto = TxtSolLuna (nombre_aspecto x), tipo = ''positive''\<rparr> st)"
    for st
    using x by (simp add: regla_sol_luna_def peso_claves ligar_Inr)
  then show ?thesis
    by (rule efecto_uno) (simp add: es_de_mercurio_def)
next
  case False
  then have "regla_sol_luna a st = Inr st" for st
    by (cases a) (simp_all add: regla_sol_luna_def)
  then show ?thesis
    by (rule efecto_nada)
qed

lemma regla_mercurio_efecto:
  "\<exists>w fm. efecto (regla_mercurio m) w [fm] \<and> es_de_mercurio fm
     \<and> (m = None \<longrightarrow> w = 10 \<and> fm = \<lparr>texto = TxtMercurioDirecto, tipo = ''positive''\<rparr>)
     \<and> (\<forall>x. m = Some x \<and> retrogrado x \<longrightarrow>
            w = - 20 \<and> fm = \<lparr>texto = TxtMercurioRetrogrado, tipo = ''negative''\<rparr>)
     \<and> (\<forall>x. m = Some x \<and> \<not> retrogrado x \<longrightarrow>
            w = 10 \<and> fm = \<lparr>texto = TxtMercurioDirecto, tipo = ''positive''\<rparr>)"
proof (cases "\<exists>x. m = Some x \<and> retrogrado x")
  case True
  then have "efecto (regla_mercurio m) (- 20)
               [\<lparr>texto = TxtMercurioRetrogrado, tipo = ''negative''\<rparr>]"
    by (auto simp: efecto_def regla_mercurio_def peso_claves ligar_Inr aplicar_def)
  then show ?thesis
    using True
    by (intro exI [of _ "- 20"]
          exI [of _ "\<lparr>texto = TxtMercurioRetrogrado, tipo = ''negative''\<rparr>"])
       (auto simp: es_de_mercurio_def)
next
  case False
  then have "efecto (regla_mercurio m) 10 [\<lparr>texto = TxtMercurioDirecto, tipo = ''positive''\<rparr>]"
    by (cases m) (auto simp: efecto_def regla_mercurio_def peso_claves ligar_Inr aplicar_def)
  then show ?thesis
    using False
    by (intro exI [of _ 10] exI [of _ "\<lparr>texto = TxtMercurioDirecto, tipo = ''positive''\<rparr>"])
       (auto simp: es_de_mercurio_def)
qed

text \<open>The two chains, from the effects of the rules.\<close>

lemma cadenas_de_efectos:
  "\<exists>base antes despues w fm.
      acumular_sin_mercurio swe jd = Inr (base, antes @ despues)
    \<and> acumular_reglas swe jd = Inr (base + w, antes @ [fm] @ despues)
    \<and> filter es_de_mercurio (antes @ despues) = []
    \<and> efecto (regla_mercurio (obtener_posicion_planeta swe jd MERCURY)) w [fm]
    \<and> es_de_mercurio fm
    \<and> (obtener_posicion_planeta swe jd MERCURY = None \<longrightarrow>
          w = 10 \<and> fm = \<lparr>texto = TxtMercurioDirecto, tipo = ''positive''\<rparr>)
    \<and> (\<forall>x. obtener_posicion_planeta swe jd MERCURY = Some x \<and> retrogrado x \<longrightarrow>
            w = - 20 \<and> fm = \<lparr>texto = TxtMercurioRetrogrado, tipo = ''negative''\<rparr>)
    \<and> (\<forall>x. obtener_posicion_planeta swe jd MERCURY = Some x \<and> \<not> retrogrado x \<longrightarrow>
            w = 10 \<and> fm = \<lparr>texto = TxtMercurioDirecto, tipo = ''positive''\<rparr>)"
proof -
  obtain d1 f1 where e1: "efecto (regla_fase (obtener_fase_lunar swe jd)) d1 f1"
    and m1: "filter es_de_mercurio f1 = []"
    using regla_fase_efecto unfolding efecto_ajeno_def by blast
  obtain d2 f2 where e2: "efecto (regla_vacia_curso (esta_luna_vacia_de_curso swe jd)) d2 f2"
    and m2: "filter es_de_mercurio f2 = []"
    using regla_vacia_curso_efecto unfolding efecto_ajeno_def by blast
  obtain d3 f3 where e3: "efecto (regla_via_combusta (obtener_posicion_planeta swe jd MOON)) d3 f3"
    and m3: "filter es_de_mercurio f3 = []"
    using regla_via_combusta_efecto unfolding efecto_ajeno_def by blast
  obtain d5 f5 where e5: "efecto (regla_jupiter (calcular_aspecto swe jd MOON JUPITER)) d5 f5"
    and m5: "filter es_de_mercurio f5 = []"
    using regla_jupiter_efecto unfolding efecto_ajeno_def by blast
  obtain d6 f6 where e6: "efecto (regla_venus (calcular_aspecto swe jd MOON VENUS)) d6 f6"
    and m6: "filter es_de_mercurio f6 = []"
    using regla_venus_efecto unfolding efecto_ajeno_def by blast
  obtain d7 f7 where e7: "efecto (regla_marte (calcular_aspecto swe jd MOON MARS)) d7 f7"
    and m7: "filter es_de_mercurio f7 = []"
    using regla_marte_efecto unfolding efecto_ajeno_def by blast
  obtain d8 f8 where e8: "efecto (regla_saturno (calcular_aspecto swe jd MOON SATURN)) d8 f8"
    and m8: "filter es_de_mercurio f8 = []"
    using regla_saturno_efecto unfolding efecto_ajeno_def by blast
  obtain d9 f9 where e9: "efecto (regla_signo (obtener_posicion_planeta swe jd MOON)) d9 f9"
    and m9: "filter es_de_mercurio f9 = []"
    using regla_signo_efecto unfolding efecto_ajeno_def by blast
  obtain d10 f10 where e10: "efecto (regla_sol_luna (calcular_aspecto swe jd SUN MOON)) d10 f10"
    and m10: "filter es_de_mercurio f10 = []"
    using regla_sol_luna_efecto unfolding efecto_ajeno_def by blast
  obtain w fm where e4: "efecto (regla_mercurio (obtener_posicion_planeta swe jd MERCURY)) w [fm]"
    and m4: "es_de_mercurio fm"
    and c4: "obtener_posicion_planeta swe jd MERCURY = None \<longrightarrow>
          w = 10 \<and> fm = \<lparr>texto = TxtMercurioDirecto, tipo = ''positive''\<rparr>"
      "\<forall>x. obtener_posicion_planeta swe jd MERCURY = Some x \<and> retrogrado x \<longrightarrow>
            w = - 20 \<and> fm = \<lparr>texto = TxtMercurioRetrogrado, tipo = ''negative''\<rparr>"
      "\<forall>x. obtener_posicion_planeta swe jd MERCURY = Some x \<and> \<not> retrogrado x \<longrightarrow>
            w = 10 \<and> fm = \<lparr>texto = TxtMercurioDirecto, tipo = ''positive''\<rparr>"
    using regla_mercurio_efecto [of "obtener_posicion_planeta swe jd MERCURY"]
    by (elim exE conjE) (rule that; assumption)
  define base where "base = 50 + d1 + d2 + d3 + d5 + d6 + d7 + d8 + d9 + d10"
  define antes where "antes = f1 @ f2 @ f3"
  define despues where "despues = f5 @ f6 @ f7 @ f8 @ f9 @ f10"
  note pasos = e1 [unfolded efecto_def, rule_format] e2 [unfolded efecto_def, rule_format]
    e3 [unfolded efecto_def, rule_format] e4 [unfolded efecto_def, rule_format]
    e5 [unfolded efecto_def, rule_format] e6 [unfolded efecto_def, rule_format]
    e7 [unfolded efecto_def, rule_format] e8 [unfolded efecto_def, rule_format]
    e9 [unfolded efecto_def, rule_format] e10 [unfolded efecto_def, rule_format]
  have a: "acumular_sin_mercurio swe jd = Inr (base, antes @ despues)"
    by (simp add: acumular_sin_mercurio_def Let_def ligar_Inr pasos base_def antes_def
        despues_def)
  have b: "acumular_reglas swe jd = Inr (base + w, antes @ [fm] @ despues)"
    by (simp add: acumular_reglas_def Let_def ligar_Inr pasos base_def antes_def despues_def)
  have c: "filter es_de_mercurio (antes @ despues) = []"
    by (simp add: antes_def despues_def m1 m2 m3 m5 m6 m7 m8 m9 m10)
  show ?thesis
    by (rule exI [of _ base], rule exI [of _ antes], rule exI [of _ despues],
        rule exI [of _ w], rule exI [of _ fm])
       (intro conjI a b c e4 m4 c4)
qed

subsection \<open>The score depends on the ephemeris at the instant only\<close>

lemma posicion_cong:
  assumes "\<forall>p. swe jd p = swe' jd' p"
  shows "obtener_posicion_planeta swe jd p = obtener_posicion_planeta swe' jd' p"
  using assms by (simp add: obtener_posicion_planeta_def)

lemma bucle_planetas_cong:
  assumes "\<forall>p. swe jd p = swe' jd' p"
  shows "bucle_planetas swe jd luna ps t = bucle_planetas swe' jd' luna ps t"
proof (induction ps arbitrary: t)
  case Nil
  show ?case by simp
next
  case (Cons p ps)
  have e: "obtener_posicion_planeta swe jd p = obtener_posicion_planeta swe' jd' p"
    using assms by (rule posicion_cong)
  show ?case
    by (cases "obtener_posicion_planeta swe' jd' p") (simp_all add: e Cons.IH)
qed

lemma fase_cong:
  assumes "\<forall>p. swe jd p = swe' jd' p"
  shows "obtener_fase_lunar swe jd = obtener_fase_lunar swe' jd'"
  unfolding obtener_fase_lunar_def
  by (simp only: posicion_cong [of swe jd swe' jd', OF assms])

lemma vacia_cong:
  assumes "\<forall>p. swe jd p = swe' jd' p"
  shows "esta_luna_vacia_de_curso swe jd = esta_luna_vacia_de_curso swe' jd'"
  unfolding esta_luna_vacia_de_curso_def
  by (simp only: posicion_cong [of swe jd swe' jd', OF assms]
      bucle_planetas_cong [of swe jd swe' jd', OF assms])

lemma aspecto_cong:
  assumes "\<forall>p. swe jd p = swe' jd' p"
  shows "calcular_aspecto swe jd p1 p2 = calcular_aspecto swe' jd' p1 p2"
  unfolding calcular_aspecto_def
  by (simp only: posicion_cong [of swe jd swe' jd', OF assms])

lemma puntaje_cong:
  assumes "\<forall>p. swe jd p = swe' jd' p"
  shows "calcular_puntaje_fecha swe jd tp lat lon = calcular_puntaje_fecha swe' jd' tp lat lon"
  unfolding calcular_puntaje_fecha_def acumular_reglas_def
  by (simp only: posicion_cong [of swe jd swe' jd', OF assms]
      fase_cong [of swe jd swe' jd', OF assms] vacia_cong [of swe jd swe' jd', OF assms]
      aspecto_cong [of swe jd swe' jd', OF assms])

subsection \<open>The example skies\<close>

lemmas pos_simps = obtener_posicion_planeta_def efem_def py_int_def py_mod_def py_index_def
  SIGNOS_def Geminis_def Cancer_def Let_def

lemmas asp_simps = calcular_aspecto_def arco_def ASPECTOS_def Conjuncion_def Trigono_def
  Oposicion_def

lemmas reglas_defs = regla_fase_def regla_vacia_curso_def regla_via_combusta_def
  regla_mercurio_def regla_jupiter_def regla_venus_def regla_marte_def regla_saturno_def
  regla_signo_def regla_sol_luna_def peso_claves ligar_Inr aplicar_def esta_en_via_combusta_def
  VIA_COMBUSTA_INICIO_def VIA_COMBUSTA_FIN_def signos_favorables_def Cancer_def Geminis_def
  Conjuncion_def Trigono_def Oposicion_def determinar_nivel_def

lemma cielo_combusta_pos:
  "obtener_posicion_planeta cielo_combusta jd MOON =
     Some \<lparr>longitud = 200, signo = ''Libra'', numero_signo = 6, grado = 20, velocidad = 13,
           retrogrado = False\<rparr>"
  "obtener_posicion_planeta cielo_combusta jd SUN =
     Some \<lparr>longitud = 170, signo = ''Virgo'', numero_signo = 5, grado = 20, velocidad = 1,
           retrogrado = False\<rparr>"
  "obtener_posicion_planeta cielo_combusta jd MERCURY =
     Some \<lparr>longitud = 170, signo = ''Virgo'', numero_signo = 5, grado = 20, velocidad = - 1,
           retrogrado = True\<rparr>"
  "obtener_posicion_planeta cielo_combusta jd VENUS =
     Some \<lparr>longitud = 170, signo = ''Virgo'', numero_signo = 5, grado = 20, velocidad = 1,
           retrogrado = False\<rparr>"
  "obtener_posicion_planeta cielo_combusta jd MARS =
     Some \<lparr>longitud = 170, signo = ''Virgo'', numero_signo = 5, grado = 20, velocidad = 1,
           retrogrado = False\<rparr>"
  "obtener_posicion_planeta cielo_combusta jd JUPITER =
     Some \<lparr>longitud = 170, signo = ''Virgo'', numero_signo = 5, grado = 20, velocidad = 1,
           retrogrado = False\<rparr>"
  "obtener_posicion_planeta cielo_combusta jd SATURN =
     Some \<lparr>longitud = 170, signo = ''Virgo'', numero_signo = 5, grado = 20, velocidad = 1,
           retrogrado = False\<rparr>"
  by (simp_all add: cielo_combusta_def pos_simps)

lemma cielo_combusta_aspectos:
  "calcular_aspecto cielo_combusta jd MOON JUPITER = None"
  "calcular_aspecto cielo_combusta jd MOON VENUS = None"
  "calcular_aspecto cielo_combusta jd MOON MARS = None"
  "calcular_aspecto cielo_combusta jd MOON SATURN = None"
  "calcular_aspecto cielo_combusta jd SUN MOON = None"
  by (simp_all add: cielo_combusta_pos asp_simps)

lemma cielo_combusta_fase:
  "obtener_fase_lunar cielo_combusta jd = \<lparr>fase = ''Nueva'', creciente = True, angulo = Some 30\<rparr>"
  by (simp add: obtener_fase_lunar_def cielo_combusta_pos py_mod_def determinar_fase_def)

lemma cielo_combusta_vacia: "\<not> esta_luna_vacia_de_curso cielo_combusta jd"
  by (simp add: esta_luna_vacia_de_curso_def cielo_combusta_pos)

lemma cielo_combusta_puntaje:
  "calcular_puntaje_fecha cielo_combusta jd tp lat lon =
     Inr \<lparr>puntaje = 25, nivel = ''avoid'',
          factores = [\<lparr>texto = TxtLuna ''Nueva'', tipo = ''positive''\<rparr>,
                      \<lparr>texto = TxtViaCombusta 20 ''Libra'', tipo = ''negative''\<rparr>,
                      \<lparr>texto = TxtMercurioRetrogrado, tipo = ''negative''\<rparr>]\<rparr>"
  by (simp add: calcular_puntaje_fecha_def acumular_reglas_def cielo_combusta_pos
      cielo_combusta_aspectos cielo_combusta_fase cielo_combusta_vacia
      regla_fase_def regla_vacia_curso_def regla_via_combusta_def regla_mercurio_def
      regla_jupiter_def regla_venus_def regla_marte_def regla_saturno_def regla_signo_def
      regla_sol_luna_def peso_claves ligar_Inr aplicar_def esta_en_via_combusta_def
      VIA_COMBUSTA_INICIO_def VIA_COMBUSTA_FIN_def signos_favorables_def Cancer_def
      determinar_nivel_def)

lemma cielo_adverso_pos:
  "obtener_posicion_planeta cielo_adverso jd MOON =
     Some \<lparr>longitud = 208, signo = ''Libra'', numero_signo = 6, grado = 28, velocidad = 13,
           retrogrado = False\<rparr>"
  "obtener_posicion_planeta cielo_adverso jd SUN =
     Some \<lparr>longitud = 20, signo = ''Aries'', numero_signo = 0, grado = 20, velocidad = 1,
           retrogrado = False\<rparr>"
  "obtener_posicion_planeta cielo_adverso jd MERCURY =
     Some \<lparr>longitud = 20, signo = ''Aries'', numero_signo = 0, grado = 20, velocidad = - 1,
           retrogrado = True\<rparr>"
  "obtener_posicion_planeta cielo_adverso jd VENUS =
     Some \<lparr>longitud = 113, signo = Cancer, numero_signo = 3, grado = 23, velocidad = 1,
           retrogrado = False\<rparr>"
  "obtener_posicion_planeta cielo_adverso jd MARS =
     Some \<lparr>longitud = 113, signo = Cancer, numero_signo = 3, grado = 23, velocidad = 1,
           retrogrado = False\<rparr>"
  "obtener_posicion_planeta cielo_adverso jd JUPITER =
     Some \<lparr>longitud = 113, signo = Cancer, numero_signo = 3, grado = 23, velocidad = 1,
           retrogrado = False\<rparr>"
  "obtener_posicion_planeta cielo_adverso jd SATURN =
     Some \<lparr>longitud = 113, signo = Cancer, numero_signo = 3, grado = 23, velocidad = 1,
           retrogrado = False\<rparr>"
  by (simp_all add: cielo_adverso_def pos_simps)

lemma cuadratura_95:
  "buscar_aspecto 95 ASPECTOS =
     Some \<lparr>nombre_aspecto = ''Cuadratura'', angulo_aspecto = 90, orbe = 5, exacto = False\<rparr>"
  by (simp add: ASPECTOS_def)

lemma oposicion_172:
  "buscar_aspecto 172 ASPECTOS =
     Some \<lparr>nombre_aspecto = Oposicion, angulo_aspecto = 180, orbe = 8, exacto = False\<rparr>"
  by (simp add: ASPECTOS_def)

lemma cielo_adverso_aspectos:
  "calcular_aspecto cielo_adverso jd MOON JUPITER =
     Some \<lparr>nombre_aspecto = ''Cuadratura'', angulo_aspecto = 90, orbe = 5, exacto = False\<rparr>"
  "calcular_aspecto cielo_adverso jd MOON VENUS =
     Some \<lparr>nombre_aspecto = ''Cuadratura'', angulo_aspecto = 90, orbe = 5, exacto = False\<rparr>"
  "calcular_aspecto cielo_adverso jd MOON MARS =
     Some \<lparr>nombre_aspecto = ''Cuadratura'', angulo_aspecto = 90, orbe = 5, exacto = False\<rparr>"
  "calcular_aspecto cielo_adverso jd MOON SATURN =
     Some \<lparr>nombre_aspecto = ''Cuadratura'', angulo_aspecto = 90, orbe = 5, exacto = False\<rparr>"
  "calcular_aspecto cielo_adverso jd SUN MOON =
     Some \<lparr>nombre_aspecto = Oposicion, angulo_aspecto = 180, orbe = 8, exacto = False\<rparr>"
  by (simp_all add: cielo_adverso_pos calcular_aspecto_def arco_def cuadratura_95 oposicion_172)

lemma cielo_adverso_fase:
  "obtener_fase_lunar cielo_adverso jd = \<lparr>fase = ''Llena'', creciente = False, angulo = Some 188\<rparr>"
  by (simp add: obtener_fase_lunar_def cielo_adverso_pos py_mod_def determinar_fase_def)

lemma cielo_adverso_vacia: "esta_luna_vacia_de_curso cielo_adverso jd"
  by (simp add: esta_luna_vacia_de_curso_def cielo_adverso_pos arco_def)

lemma cielo_adverso_acumulado:
  "acumular_reglas cielo_adverso jd =
     Inr (- 60,
          [\<lparr>texto = TxtLuna ''Llena'', tipo = ''negative''\<rparr>,
           \<lparr>texto = TxtVaciaCurso, tipo = ''negative''\<rparr>,
           \<lparr>texto = TxtViaCombusta 28 ''Libra'', tipo = ''negative''\<rparr>,
           \<lparr>texto = TxtMercurioRetrogrado, tipo = ''negative''\<rparr>,
           \<lparr>texto = TxtLunaJupiter ''Cuadratura'', tipo = ''neutral''\<rparr>,
           \<lparr>texto = TxtLunaMarte ''Cuadratura'', tipo = ''negative''\<rparr>,
           \<lparr>texto = TxtLunaSaturno ''Cuadratura'', tipo = ''negative''\<rparr>])"
  by (simp add: acumular_reglas_def cielo_adverso_pos
      cielo_adverso_aspectos cielo_adverso_fase cielo_adverso_vacia
      regla_fase_def regla_vacia_curso_def regla_via_combusta_def regla_mercurio_def
      regla_jupiter_def regla_venus_def regla_marte_def regla_saturno_def regla_signo_def
      regla_sol_luna_def peso_claves ligar_Inr aplicar_def esta_en_via_combusta_def
      VIA_COMBUSTA_INICIO_def VIA_COMBUSTA_FIN_def signos_favorables_def Cancer_def
      Conjuncion_def Trigono_def Oposicion_def)




lemma cielo_sin_mercurio_pos:
  "obtener_posicion_planeta cielo_sin_mercurio jd MERCURY = None"
  "obtener_posicion_planeta cielo_sin_mercurio jd MOON =
     Some \<lparr>longitud = 70, signo = Geminis, numero_signo = 2, grado = 10, velocidad = 13,
           retrogrado = False\<rparr>"
  "obtener_posicion_planeta cielo_sin_mercurio jd SUN =
     Some \<lparr>longitud = 40, signo = ''Tauro'', numero_signo = 1, grado = 10, velocidad = 1,
           retrogrado = False\<rparr>"
  "obtener_posicion_planeta cielo_sin_mercurio jd VENUS =
     Some \<lparr>longitud = 40, signo = ''Tauro'', numero_signo = 1, grado = 10, velocidad = 1,
           retrogrado = False\<rparr>"
  "obtener_posicion_planeta cielo_sin_mercurio jd MARS =
     Some \<lparr>longitud = 40, signo = ''Tauro'', numero_signo = 1, grado = 10, velocidad = 1,
           retrogrado = False\<rparr>"
  "obtener_posicion_planeta cielo_sin_mercurio jd JUPITER =
     Some \<lparr>longitud = 40, signo = ''Tauro'', numero_signo = 1, grado = 10, velocidad = 1,
           retrogrado = False\<rparr>"
  "obtener_posicion_planeta cielo_sin_mercurio jd SATURN =
     Some \<lparr>longitud = 40, signo = ''Tauro'', numero_signo = 1, grado = 10, velocidad = 1,
           retrogrado = False\<rparr>"
  by (simp_all add: cielo_sin_mercurio_def pos_simps)

lemma cielo_sin_mercurio_aspectos:
  "calcular_aspecto cielo_sin_mercurio jd MOON JUPITER = None"
  "calcular_aspecto cielo_sin_mercurio jd MOON VENUS = None"
  "calcular_aspecto cielo_sin_mercurio jd MOON MARS = None"
  "calcular_aspecto cielo_sin_mercurio jd MOON SATURN = None"
  "calcular_aspecto cielo_sin_mercurio jd SUN MOON = None"
  by (simp_all add: cielo_sin_mercurio_pos asp_simps)

lemma cielo_sin_mercurio_puntaje:
  "calcular_puntaje_fecha cielo_sin_mercurio jd tp lat lon =
     Inr \<lparr>puntaje = 75, nivel = ''good'',
          factores = [\<lparr>texto = TxtLuna ''Nueva'', tipo = ''positive''\<rparr>,
                      \<lparr>texto = TxtMercurioDirecto, tipo = ''positive''\<rparr>]\<rparr>"
  by (simp add: calcular_puntaje_fecha_def acumular_reglas_def cielo_sin_mercurio_pos
      cielo_sin_mercurio_aspectos obtener_fase_lunar_def esta_luna_vacia_de_curso_def
      py_mod_def determinar_fase_def reglas_defs)

lemma cielo_sin_mercurio_omitida:
  "acumular_sin_mercurio cielo_sin_mercurio jd =
     Inr (65, [\<lparr>texto = TxtLuna ''Nueva'', tipo = ''positive''\<rparr>])"
  by (simp add: acumular_sin_mercurio_def cielo_sin_mercurio_pos
      cielo_sin_mercurio_aspectos obtener_fase_lunar_def esta_luna_vacia_de_curso_def
      py_mod_def determinar_fase_def reglas_defs)

lemma cielo_conjuncion_pos:
  "obtener_posicion_planeta cielo_conjuncion jd MOON =
     Some \<lparr>longitud = 208, signo = ''Libra'', numero_signo = 6, grado = 28, velocidad = 13,
           retrogrado = False\<rparr>"
  "obtener_posicion_planeta cielo_conjuncion jd SUN =
     Some \<lparr>longitud = 208, signo = ''Libra'', numero_signo = 6, grado = 28, velocidad = 1,
           retrogrado = False\<rparr>"
  by (simp_all add: cielo_conjuncion_def pos_simps)

lemma cielo_luna_detenida_pos:
  "obtener_posicion_planeta cielo_luna_detenida jd MOON =
     Some \<lparr>longitud = 208, signo = ''Libra'', numero_signo = 6, grado = 28, velocidad = 0,
           retrogrado = False\<rparr>"
  "obtener_posicion_planeta cielo_luna_detenida jd SUN =
     Some \<lparr>longitud = 208, signo = ''Libra'', numero_signo = 6, grado = 28, velocidad = 1,
           retrogrado = False\<rparr>"
  by (simp_all add: cielo_luna_detenida_def pos_simps)

lemma cielo_alterno_combusta:
  assumes "jd \<noteq> 739677 + 1 / 2"
  shows "\<forall>p. cielo_alterno jd p = cielo_combusta jd p"
  using assms by (simp add: cielo_alterno_def)

lemma cielo_alterno_sin_mercurio:
  "\<forall>p. cielo_alterno (739677 + 1 / 2) p = cielo_sin_mercurio (739677 + 1 / 2) p"
  by (simp add: cielo_alterno_def)

subsection \<open>Via Combusta\<close>

text \<open>
  C8. For every longitude \<open>L\<close> the Via Combusta predicate holds exactly when
  \<open>195 \<le> L \<le> 225\<close>, both ends included: it holds at 195.0 and at 225.0 and fails at
  194.999 and at 225.001.
\<close>

theorem via_combusta_iff:
  "(esta_en_via_combusta L \<longleftrightarrow> 195 \<le> L \<and> L \<le> 225)
   \<and> esta_en_via_combusta 195 \<and> esta_en_via_combusta 225
   \<and> \<not> esta_en_via_combusta (194999 / 1000) \<and> \<not> esta_en_via_combusta (225001 / 1000)"
  by (simp add: esta_en_via_combusta_def VIA_COMBUSTA_INICIO_def VIA_COMBUSTA_FIN_def)

subsection \<open>Score and level\<close>

text \<open>
  C3. At every instant the scoring returns; the score is the accumulated score truncated
  into the range from 0 to 100 (0 below, 100 above, unchanged inside), and the level is
  decided by the truncated score alone in four bands without gap or overlap:
  0-39 avoid, 40-59 caution, 60-79 good, 80-100 excellent.
\<close>

theorem puntaje_acotado_y_nivel:
  "\<exists>st an. acumular_reglas swe jd = Inr st
     \<and> calcular_puntaje_fecha swe jd tp lat lon = Inr an
     \<and> 0 \<le> puntaje an \<and> puntaje an \<le> 100
     \<and> puntaje an = (if fst st < 0 then 0 else if 100 < fst st then 100 else fst st)
     \<and> (nivel an = ''avoid'' \<longleftrightarrow> 0 \<le> puntaje an \<and> puntaje an \<le> 39)
     \<and> (nivel an = ''caution'' \<longleftrightarrow> 40 \<le> puntaje an \<and> puntaje an \<le> 59)
     \<and> (nivel an = ''good'' \<longleftrightarrow> 60 \<le> puntaje an \<and> puntaje an \<le> 79)
     \<and> (nivel an = ''excellent'' \<longleftrightarrow> 80 \<le> puntaje an \<and> puntaje an \<le> 100)"
proof -
  obtain st where st: "acumular_reglas swe jd = Inr st"
    using acumular_reglas_total by blast
  define p where "p = max 0 (min 100 (fst st))"
  have an: "calcular_puntaje_fecha swe jd tp lat lon
              = Inr \<lparr>puntaje = p, nivel = determinar_nivel p, factores = snd st\<rparr>"
    by (simp add: calcular_puntaje_fecha_def st ligar_Inr Let_def p_def)
  have r: "0 \<le> p" "p \<le> 100" "p = (if fst st < 0 then 0 else if 100 < fst st then 100 else fst st)"
    by (auto simp: p_def)
  have n: "(determinar_nivel p = ''avoid'' \<longleftrightarrow> 0 \<le> p \<and> p \<le> 39)"
    "(determinar_nivel p = ''caution'' \<longleftrightarrow> 40 \<le> p \<and> p \<le> 59)"
    "(determinar_nivel p = ''good'' \<longleftrightarrow> 60 \<le> p \<and> p \<le> 79)"
    "(determinar_nivel p = ''excellent'' \<longleftrightarrow> 80 \<le> p \<and> p \<le> 100)"
    using r(1,2) by (auto simp: determinar_nivel_def)
  show ?thesis
    using st an r n by simp
qed

theorem puntaje_acotado_y_nivel_witness:
  "acumular_reglas cielo_adverso 0 =
     Inr (- 60,
          [\<lparr>texto = TxtLuna ''Llena'', tipo = ''negative''\<rparr>,
           \<lparr>texto = TxtVaciaCurso, tipo = ''negative''\<rparr>,
           \<lparr>texto = TxtViaCombusta 28 ''Libra'', tipo = ''negative''\<rparr>,
           \<lparr>texto = TxtMercurioRetrogrado, tipo = ''negative''\<rparr>,
           \<lparr>texto = TxtLunaJupiter ''Cuadratura'', tipo = ''neutral''\<rparr>,
           \<lparr>texto = TxtLunaMarte ''Cuadratura'', tipo = ''negative''\<rparr>,
           \<lparr>texto = TxtLunaSaturno ''Cuadratura'', tipo = ''negative''\<rparr>])
   \<and> (\<exists>an. calcular_puntaje_fecha cielo_adverso 0 ''negocio'' None None = Inr an
         \<and> puntaje an = 0 \<and> nivel an = ''avoid'')"
proof -
  obtain st an where st: "acumular_reglas cielo_adverso 0 = Inr st"
    and an: "calcular_puntaje_fecha cielo_adverso 0 ''negocio'' None None = Inr an"
    and p: "puntaje an = (if fst st < 0 then 0 else if 100 < fst st then 100 else fst st)"
    and n: "nivel an = ''avoid'' \<longleftrightarrow> 0 \<le> puntaje an \<and> puntaje an \<le> 39"
    using puntaje_acotado_y_nivel [of cielo_adverso 0 "''negocio''" None None] by blast
  have "fst st = - 60"
    using st cielo_adverso_acumulado [of 0] by auto
  then have "puntaje an = 0"
    using p by simp
  then show ?thesis
    using an n cielo_adverso_acumulado [of 0] by simp
qed

subsection \<open>Void of course\<close>

lemma bucle_aspectos_iff:
  "bucle_aspectos d v angs t \<longleftrightarrow> t \<or> (v > 0 \<and> (\<exists>a \<in> set angs. \<bar>d - a\<bar> < 3))"
  by (induction angs) auto

lemma bucle_planetas_iff:
  "bucle_planetas swe jd luna ps t \<longleftrightarrow>
     t \<or> (velocidad luna > 0 \<and> hay_aspecto_estrecho swe jd luna ps)"
proof (induction ps arbitrary: t)
  case Nil
  show ?case by (simp add: hay_aspecto_estrecho_def)
next
  case (Cons p ps)
  show ?case
  proof (cases "obtener_posicion_planeta swe jd p")
    case None
    then show ?thesis
      using Cons.IH [of t] by (auto simp: hay_aspecto_estrecho_def)
  next
    case (Some pos)
    then show ?thesis
      using Cons.IH [of "bucle_aspectos (arco (longitud luna) (longitud pos)) (velocidad luna)
                           [0, 60, 90, 120, 180] t"]
      by (auto simp: hay_aspecto_estrecho_def bucle_aspectos_iff cinco_angulos_def)
  qed
qed

lemma vacia_de_curso_iff:
  assumes "obtener_posicion_planeta swe jd MOON = Some luna"
  shows "esta_luna_vacia_de_curso swe jd \<longleftrightarrow>
           grado luna > 27
           \<and> \<not> (velocidad luna > 0 \<and> hay_aspecto_estrecho swe jd luna seis_cuerpos)"
  using assms
  by (simp add: esta_luna_vacia_de_curso_def bucle_planetas_iff seis_cuerpos_def)

text \<open>
  C4. With the Moon resolved, the detector returns true exactly when the degree of the Moon
  within its sign exceeds 27 and no aspect is found, where an aspect is found when the
  speed of the Moon is positive and one of the six bodies Sun, Mercury, Venus, Mars,
  Jupiter, Saturn is within 3 degrees of one of the five angles 0, 60, 90, 120, 180 from
  the Moon. So: at a degree of at most 27 it returns false; at a degree above 27 with no
  body that near an angle it returns true; at a degree above 27 with such a body and a
  positive speed it returns false; at a degree above 27 with a speed that is not positive
  it returns true, whatever the bodies.
\<close>

theorem vacia_de_curso_ventana:
  assumes "obtener_posicion_planeta swe jd MOON = Some luna"
  shows "(esta_luna_vacia_de_curso swe jd \<longleftrightarrow>
            grado luna > 27
            \<and> \<not> (velocidad luna > 0 \<and> hay_aspecto_estrecho swe jd luna seis_cuerpos))
       \<and> (grado luna \<le> 27 \<longrightarrow> \<not> esta_luna_vacia_de_curso swe jd)
       \<and> (grado luna > 27 \<and> \<not> hay_aspecto_estrecho swe jd luna seis_cuerpos
            \<longrightarrow> esta_luna_vacia_de_curso swe jd)
       \<and> (grado luna > 27 \<and> velocidad luna > 0 \<and> hay_aspecto_estrecho swe jd luna seis_cuerpos
            \<longrightarrow> \<not> esta_luna_vacia_de_curso swe jd)
       \<and> (grado luna > 27 \<and> \<not> velocidad luna > 0 \<longrightarrow> esta_luna_vacia_de_curso swe jd)"
  using vacia_de_curso_iff [OF assms] by auto

lemma cielo_combusta_sin_aspecto:
  "\<not> hay_aspecto_estrecho cielo_combusta jd
       \<lparr>longitud = 200, signo = ''Libra'', numero_signo = 6, grado = 20, velocidad = 13,
        retrogrado = False\<rparr> seis_cuerpos"
  by (simp add: hay_aspecto_estrecho_def seis_cuerpos_def cinco_angulos_def
      cielo_combusta_pos arco_def)

lemma cielo_adverso_sin_aspecto:
  "\<not> hay_aspecto_estrecho cielo_adverso jd
       \<lparr>longitud = 208, signo = ''Libra'', numero_signo = 6, grado = 28, velocidad = 13,
        retrogrado = False\<rparr> seis_cuerpos"
  by (simp add: hay_aspecto_estrecho_def seis_cuerpos_def cinco_angulos_def
      cielo_adverso_pos arco_def)

lemma cielo_conjuncion_aspecto:
  "hay_aspecto_estrecho cielo_conjuncion jd
     \<lparr>longitud = 208, signo = ''Libra'', numero_signo = 6, grado = 28, velocidad = 13,
      retrogrado = False\<rparr> seis_cuerpos"
  by (simp add: hay_aspecto_estrecho_def seis_cuerpos_def cinco_angulos_def
      cielo_conjuncion_pos arco_def)

lemma cielo_luna_detenida_aspecto:
  "hay_aspecto_estrecho cielo_luna_detenida jd
     \<lparr>longitud = 208, signo = ''Libra'', numero_signo = 6, grado = 28, velocidad = 0,
      retrogrado = False\<rparr> seis_cuerpos"
  by (simp add: hay_aspecto_estrecho_def seis_cuerpos_def cinco_angulos_def
      cielo_luna_detenida_pos arco_def)

theorem vacia_de_curso_ventana_witness:
  "obtener_posicion_planeta cielo_combusta 0 MOON =
     Some \<lparr>longitud = 200, signo = ''Libra'', numero_signo = 6, grado = 20, velocidad = 13,
           retrogrado = False\<rparr>
   \<and> \<not> esta_luna_vacia_de_curso cielo_combusta 0
   \<and> obtener_posicion_planeta cielo_adverso 0 MOON =
       Some \<lparr>longitud = 208, signo = ''Libra'', numero_signo = 6, grado = 28, velocidad = 13,
             retrogrado = False\<rparr>
   \<and> \<not> hay_aspecto_estrecho cielo_adverso 0
         \<lparr>longitud = 208, signo = ''Libra'', numero_signo = 6, grado = 28, velocidad = 13,
          retrogrado = False\<rparr> seis_cuerpos
   \<and> esta_luna_vacia_de_curso cielo_adverso 0
   \<and> obtener_posicion_planeta cielo_conjuncion 0 MOON =
       Some \<lparr>longitud = 208, signo = ''Libra'', numero_signo = 6, grado = 28, velocidad = 13,
             retrogrado = False\<rparr>
   \<and> hay_aspecto_estrecho cielo_conjuncion 0
         \<lparr>longitud = 208, signo = ''Libra'', numero_signo = 6, grado = 28, velocidad = 13,
          retrogrado = False\<rparr> seis_cuerpos
   \<and> \<not> esta_luna_vacia_de_curso cielo_conjuncion 0
   \<and> obtener_posicion_planeta cielo_luna_detenida 0 MOON =
       Some \<lparr>longitud = 208, signo = ''Libra'', numero_signo = 6, grado = 28, velocidad = 0,
             retrogrado = False\<rparr>
   \<and> hay_aspecto_estrecho cielo_luna_detenida 0
         \<lparr>longitud = 208, signo = ''Libra'', numero_signo = 6, grado = 28, velocidad = 0,
          retrogrado = False\<rparr> seis_cuerpos
   \<and> esta_luna_vacia_de_curso cielo_luna_detenida 0"
proof -
  have a: "\<not> esta_luna_vacia_de_curso cielo_combusta 0"
    using vacia_de_curso_ventana [OF cielo_combusta_pos(1), of 0] by simp
  have b: "esta_luna_vacia_de_curso cielo_adverso 0"
    using vacia_de_curso_ventana [OF cielo_adverso_pos(1), of 0]
      cielo_adverso_sin_aspecto [of 0]
    by simp
  have c: "\<not> esta_luna_vacia_de_curso cielo_conjuncion 0"
    using vacia_de_curso_ventana [OF cielo_conjuncion_pos(1), of 0]
      cielo_conjuncion_aspecto [of 0]
    by simp
  have d: "esta_luna_vacia_de_curso cielo_luna_detenida 0"
    using vacia_de_curso_ventana [OF cielo_luna_detenida_pos(1), of 0]
    by simp
  show ?thesis
    by (intro conjI a b c d cielo_combusta_pos(1) cielo_adverso_pos(1)
        cielo_adverso_sin_aspecto cielo_conjuncion_pos(1) cielo_conjuncion_aspecto
        cielo_luna_detenida_pos(1) cielo_luna_detenida_aspecto)
qed

subsection \<open>Lunar phase\<close>

lemma banda_floor:
  fixes d :: real
  assumes "of_int k * 45 \<le> d" "d < (of_int k + 1) * 45"
  shows "\<lfloor>d / 45\<rfloor> = k"
  using assms by (simp add: floor_eq_iff field_simps)

lemma determinar_fase_banda:
  assumes "0 \<le> d" "d < 360"
  shows "determinar_fase d = (fases_en_orden ! nat \<lfloor>d / 45\<rfloor>, \<lfloor>d / 45\<rfloor> < 4)
         \<and> 0 \<le> \<lfloor>d / 45\<rfloor> \<and> \<lfloor>d / 45\<rfloor> < 8"
proof -
  consider "d < 45" | "45 \<le> d" "d < 90" | "90 \<le> d" "d < 135" | "135 \<le> d" "d < 180"
    | "180 \<le> d" "d < 225" | "225 \<le> d" "d < 270" | "270 \<le> d" "d < 315" | "315 \<le> d"
    by linarith
  then show ?thesis
  proof cases
    case 1
    have "\<lfloor>d / 45\<rfloor> = 0" using banda_floor [of 0 d] assms 1 by simp
    then show ?thesis using 1 by (simp add: determinar_fase_def fases_en_orden_def)
  next
    case 2
    have "\<lfloor>d / 45\<rfloor> = 1" using banda_floor [of 1 d] 2 by simp
    then show ?thesis using 2 by (simp add: determinar_fase_def fases_en_orden_def)
  next
    case 3
    have "\<lfloor>d / 45\<rfloor> = 2" using banda_floor [of 2 d] 3 by simp
    then show ?thesis using 3 by (simp add: determinar_fase_def fases_en_orden_def)
  next
    case 4
    have "\<lfloor>d / 45\<rfloor> = 3" using banda_floor [of 3 d] 4 by simp
    then show ?thesis using 4 by (simp add: determinar_fase_def fases_en_orden_def)
  next
    case 5
    have "\<lfloor>d / 45\<rfloor> = 4" using banda_floor [of 4 d] 5 by simp
    then show ?thesis using 5 by (simp add: determinar_fase_def fases_en_orden_def)
  next
    case 6
    have "\<lfloor>d / 45\<rfloor> = 5" using banda_floor [of 5 d] 6 by simp
    then show ?thesis using 6 by (simp add: determinar_fase_def fases_en_orden_def)
  next
    case 7
    have "\<lfloor>d / 45\<rfloor> = 6" using banda_floor [of 6 d] 7 by simp
    then show ?thesis using 7 by (simp add: determinar_fase_def fases_en_orden_def)
  next
    case 8
    have "\<lfloor>d / 45\<rfloor> = 7" using banda_floor [of 7 d] assms 8 by simp
    then show ?thesis using 8 by (simp add: determinar_fase_def fases_en_orden_def)
  qed
qed

lemma py_mod_rango:
  assumes "0 < y"
  shows "0 \<le> py_mod x y \<and> py_mod x y < y"
proof -
  have lo: "of_int \<lfloor>x / y\<rfloor> * y \<le> x"
    using of_int_floor_le [of "x / y"] assms by (simp only: pos_le_divide_eq)
  have "x / y < of_int \<lfloor>x / y\<rfloor> + 1"
    by linarith
  then have hi: "x < (of_int \<lfloor>x / y\<rfloor> + 1) * y"
    using assms by (simp only: pos_divide_less_eq)
  show ?thesis
    using lo hi by (simp add: py_mod_def algebra_simps)
qed

text \<open>
  C5. The phase classifier is total: every separation in [0, 360) falls into exactly one
  of eight bands of 45 degrees, named in the fixed cyclic order; the first four bands are
  waxing, the last four are not. The separation the source computes from a resolved Sun and
  Moon lies in [0, 360). Separation 0 is Nueva and waxing, separation 359.9 is Menguante and
  not waxing.
\<close>

theorem fase_lunar_total:
  "distinct fases_en_orden \<and> length fases_en_orden = 8
   \<and> (0 \<le> d \<and> d < 360 \<longrightarrow>
        determinar_fase d = (fases_en_orden ! nat \<lfloor>d / 45\<rfloor>, \<lfloor>d / 45\<rfloor> < 4)
        \<and> 0 \<le> \<lfloor>d / 45\<rfloor> \<and> \<lfloor>d / 45\<rfloor> < 8)
   \<and> (obtener_posicion_planeta swe jd SUN = Some sol
        \<and> obtener_posicion_planeta swe jd MOON = Some luna \<longrightarrow>
        (let s = py_mod (longitud luna - longitud sol) 360
         in 0 \<le> s \<and> s < 360
            \<and> obtener_fase_lunar swe jd =
                \<lparr>fase = fases_en_orden ! nat \<lfloor>s / 45\<rfloor>, creciente = (\<lfloor>s / 45\<rfloor> < 4),
                 angulo = Some s\<rparr>))
   \<and> determinar_fase 0 = (''Nueva'', True)
   \<and> determinar_fase (3599 / 10) = (''Menguante'', False)"
proof -
  have a: "distinct fases_en_orden \<and> length fases_en_orden = 8"
    by (simp add: fases_en_orden_def)
  have b: "0 \<le> d \<and> d < 360 \<longrightarrow>
        determinar_fase d = (fases_en_orden ! nat \<lfloor>d / 45\<rfloor>, \<lfloor>d / 45\<rfloor> < 4)
        \<and> 0 \<le> \<lfloor>d / 45\<rfloor> \<and> \<lfloor>d / 45\<rfloor> < 8"
    using determinar_fase_banda [of d] by blast
  have c: "obtener_posicion_planeta swe jd SUN = Some sol
        \<and> obtener_posicion_planeta swe jd MOON = Some luna \<longrightarrow>
        (let s = py_mod (longitud luna - longitud sol) 360
         in 0 \<le> s \<and> s < 360
            \<and> obtener_fase_lunar swe jd =
                \<lparr>fase = fases_en_orden ! nat \<lfloor>s / 45\<rfloor>, creciente = (\<lfloor>s / 45\<rfloor> < 4),
                 angulo = Some s\<rparr>)"
  proof (intro impI)
    assume h: "obtener_posicion_planeta swe jd SUN = Some sol
        \<and> obtener_posicion_planeta swe jd MOON = Some luna"
    define s where "s = py_mod (longitud luna - longitud sol) 360"
    have r: "0 \<le> s \<and> s < 360"
      unfolding s_def using py_mod_rango [of 360] by simp
    have "obtener_fase_lunar swe jd =
            \<lparr>fase = fst (determinar_fase s), creciente = snd (determinar_fase s), angulo = Some s\<rparr>"
      using h by (simp add: obtener_fase_lunar_def Let_def s_def)
    then show "let s = py_mod (longitud luna - longitud sol) 360
         in 0 \<le> s \<and> s < 360
            \<and> obtener_fase_lunar swe jd =
                \<lparr>fase = fases_en_orden ! nat \<lfloor>s / 45\<rfloor>, creciente = (\<lfloor>s / 45\<rfloor> < 4),
                 angulo = Some s\<rparr>"
      using r determinar_fase_banda [of s] by (simp add: Let_def s_def)
  qed
  have e: "determinar_fase 0 = (''Nueva'', True)"
    "determinar_fase (3599 / 10) = (''Menguante'', False)"
    by (simp_all add: determinar_fase_def)
  show ?thesis
    using a b c e by blast
qed

theorem fase_lunar_total_witness:
  "determinar_fase 100 = (''Cuarto Creciente'', True)
   \<and> obtener_fase_lunar cielo_adverso 0 =
       \<lparr>fase = ''Llena'', creciente = False, angulo = Some 188\<rparr>"
proof -
  note t = fase_lunar_total [of 100 cielo_adverso 0
      "\<lparr>longitud = 20, signo = ''Aries'', numero_signo = 0, grado = 20, velocidad = 1,
        retrogrado = False\<rparr>"
      "\<lparr>longitud = 208, signo = ''Libra'', numero_signo = 6, grado = 28, velocidad = 13,
        retrogrado = False\<rparr>"]
  have a: "determinar_fase 100 = (''Cuarto Creciente'', True)"
    using t by (simp add: fases_en_orden_def)
  have b: "obtener_fase_lunar cielo_adverso 0 =
       \<lparr>fase = ''Llena'', creciente = False, angulo = Some 188\<rparr>"
    using t by (simp add: cielo_adverso_pos py_mod_def fases_en_orden_def Let_def)
  show ?thesis
    using a b by (rule conjI)
qed

subsection \<open>Unavailable bodies\<close>



text \<open>
  C1, as the code has it. The Mercury rule is never skipped and fires exactly once, whether or
  not Mercury is resolved: the factors of the result are those of the scoring without the
  Mercury rule with exactly one factor of Mercury inserted, and the score is the score
  without the rule plus one weight, truncated. When Mercury cannot be resolved the
  condition of the retrograde branch is false, so the weight is that of direct Mercury,
  +10, and the factor is the positive "Mercurio Directo", as for a resolved Mercury that
  is not retrograde; for a resolved retrograde Mercury they are -20 and the negative
  "Mercurio Retrogrado".
\<close>

theorem mercurio_ausente_no_omitido:
  "\<exists>base antes despues w fm an.
      acumular_sin_mercurio swe jd = Inr (base, antes @ despues)
    \<and> calcular_puntaje_fecha swe jd tp lat lon = Inr an
    \<and> puntaje an = max 0 (min 100 (base + w))
    \<and> factores an = antes @ [fm] @ despues
    \<and> filter es_de_mercurio (factores an) = [fm]
    \<and> (\<forall>st. regla_mercurio (obtener_posicion_planeta swe jd MERCURY) st =
               Inr (fst st + w, snd st @ [fm]))
    \<and> (obtener_posicion_planeta swe jd MERCURY = None \<longrightarrow>
          w = 10 \<and> fm = \<lparr>texto = TxtMercurioDirecto, tipo = ''positive''\<rparr>)
    \<and> (\<forall>x. obtener_posicion_planeta swe jd MERCURY = Some x \<and> retrogrado x \<longrightarrow>
            w = - 20 \<and> fm = \<lparr>texto = TxtMercurioRetrogrado, tipo = ''negative''\<rparr>)
    \<and> (\<forall>x. obtener_posicion_planeta swe jd MERCURY = Some x \<and> \<not> retrogrado x \<longrightarrow>
            w = 10 \<and> fm = \<lparr>texto = TxtMercurioDirecto, tipo = ''positive''\<rparr>)"
proof -
  obtain base antes despues w fm where
    a: "acumular_sin_mercurio swe jd = Inr (base, antes @ despues)"
    and b: "acumular_reglas swe jd = Inr (base + w, antes @ [fm] @ despues)"
    and c: "filter es_de_mercurio (antes @ despues) = []"
    and e: "efecto (regla_mercurio (obtener_posicion_planeta swe jd MERCURY)) w [fm]"
    and m: "es_de_mercurio fm"
    and c4: "obtener_posicion_planeta swe jd MERCURY = None \<longrightarrow>
          w = 10 \<and> fm = \<lparr>texto = TxtMercurioDirecto, tipo = ''positive''\<rparr>"
      "\<forall>x. obtener_posicion_planeta swe jd MERCURY = Some x \<and> retrogrado x \<longrightarrow>
            w = - 20 \<and> fm = \<lparr>texto = TxtMercurioRetrogrado, tipo = ''negative''\<rparr>"
      "\<forall>x. obtener_posicion_planeta swe jd MERCURY = Some x \<and> \<not> retrogrado x \<longrightarrow>
            w = 10 \<and> fm = \<lparr>texto = TxtMercurioDirecto, tipo = ''positive''\<rparr>"
    using cadenas_de_efectos [of swe jd] by (elim exE conjE) (rule that; assumption)
  define an where "an = \<lparr>puntaje = max 0 (min 100 (base + w)),
                         nivel = determinar_nivel (max 0 (min 100 (base + w))),
                         factores = antes @ [fm] @ despues\<rparr>"
  have p: "calcular_puntaje_fecha swe jd tp lat lon = Inr an"
    by (simp add: calcular_puntaje_fecha_def b ligar_Inr an_def Let_def)
  have f: "filter es_de_mercurio (factores an) = [fm]"
    using c m by (simp add: an_def)
  have r: "\<forall>st. regla_mercurio (obtener_posicion_planeta swe jd MERCURY) st =
               Inr (fst st + w, snd st @ [fm])"
    using e by (simp add: efecto_def)
  have pu: "puntaje an = max 0 (min 100 (base + w))"
    and fa: "factores an = antes @ [fm] @ despues"
    by (simp_all add: an_def)
  show ?thesis
    by (rule exI [of _ base], rule exI [of _ antes], rule exI [of _ despues],
        rule exI [of _ w], rule exI [of _ fm], rule exI [of _ an])
       (intro conjI a p pu fa f r c4)
qed

theorem mercurio_ausente_counterexample:
  "obtener_posicion_planeta cielo_sin_mercurio 0 MERCURY = None
   \<and> acumular_sin_mercurio cielo_sin_mercurio 0 =
       Inr (65, [\<lparr>texto = TxtLuna ''Nueva'', tipo = ''positive''\<rparr>])
   \<and> regla_mercurio (obtener_posicion_planeta cielo_sin_mercurio 0 MERCURY)
       (65, [\<lparr>texto = TxtLuna ''Nueva'', tipo = ''positive''\<rparr>])
       \<noteq> Inr (65, [\<lparr>texto = TxtLuna ''Nueva'', tipo = ''positive''\<rparr>])
   \<and> calcular_puntaje_fecha cielo_sin_mercurio 0 ''negocio'' None None =
       Inr \<lparr>puntaje = 75, nivel = ''good'',
            factores = [\<lparr>texto = TxtLuna ''Nueva'', tipo = ''positive''\<rparr>,
                        \<lparr>texto = TxtMercurioDirecto, tipo = ''positive''\<rparr>]\<rparr>"
  by (simp add: cielo_sin_mercurio_pos cielo_sin_mercurio_puntaje cielo_sin_mercurio_omitida
      regla_mercurio_def peso_claves ligar_Inr aplicar_def)

theorem mercurio_ausente_witness:
  "obtener_posicion_planeta cielo_sin_mercurio 0 MERCURY = None
   \<and> acumular_sin_mercurio cielo_sin_mercurio 0 =
       Inr (65, [\<lparr>texto = TxtLuna ''Nueva'', tipo = ''positive''\<rparr>])
   \<and> calcular_puntaje_fecha cielo_sin_mercurio 0 ''negocio'' None None =
       Inr \<lparr>puntaje = 75, nivel = ''good'',
            factores = [\<lparr>texto = TxtLuna ''Nueva'', tipo = ''positive''\<rparr>,
                        \<lparr>texto = TxtMercurioDirecto, tipo = ''positive''\<rparr>]\<rparr>
   \<and> (\<exists>base antes despues an.
         acumular_sin_mercurio cielo_sin_mercurio 0 = Inr (base, antes @ despues)
       \<and> calcular_puntaje_fecha cielo_sin_mercurio 0 ''negocio'' None None = Inr an
       \<and> puntaje an = max 0 (min 100 (base + 10))
       \<and> factores an = antes @ [\<lparr>texto = TxtMercurioDirecto, tipo = ''positive''\<rparr>] @ despues
       \<and> filter es_de_mercurio (factores an)
           = [\<lparr>texto = TxtMercurioDirecto, tipo = ''positive''\<rparr>])
   \<and> obtener_posicion_planeta cielo_combusta 0 MERCURY =
       Some \<lparr>longitud = 170, signo = ''Virgo'', numero_signo = 5, grado = 20, velocidad = - 1,
             retrogrado = True\<rparr>
   \<and> (\<exists>base antes despues an.
         acumular_sin_mercurio cielo_combusta 0 = Inr (base, antes @ despues)
       \<and> calcular_puntaje_fecha cielo_combusta 0 ''negocio'' None None = Inr an
       \<and> puntaje an = max 0 (min 100 (base + - 20))
       \<and> factores an = antes @ [\<lparr>texto = TxtMercurioRetrogrado, tipo = ''negative''\<rparr>] @ despues
       \<and> filter es_de_mercurio (factores an)
           = [\<lparr>texto = TxtMercurioRetrogrado, tipo = ''negative''\<rparr>])"
proof -
  have n: "obtener_posicion_planeta cielo_sin_mercurio 0 MERCURY = None"
    by (rule cielo_sin_mercurio_pos)
  have r: "obtener_posicion_planeta cielo_combusta 0 MERCURY =
       Some \<lparr>longitud = 170, signo = ''Virgo'', numero_signo = 5, grado = 20, velocidad = - 1,
             retrogrado = True\<rparr>"
    by (rule cielo_combusta_pos)
  have a: "\<exists>base antes despues an.
         acumular_sin_mercurio cielo_sin_mercurio 0 = Inr (base, antes @ despues)
       \<and> calcular_puntaje_fecha cielo_sin_mercurio 0 ''negocio'' None None = Inr an
       \<and> puntaje an = max 0 (min 100 (base + 10))
       \<and> factores an = antes @ [\<lparr>texto = TxtMercurioDirecto, tipo = ''positive''\<rparr>] @ despues
       \<and> filter es_de_mercurio (factores an)
           = [\<lparr>texto = TxtMercurioDirecto, tipo = ''positive''\<rparr>]"
  proof -
    obtain base antes despues w fm an where
      h: "acumular_sin_mercurio cielo_sin_mercurio 0 = Inr (base, antes @ despues)"
        "calcular_puntaje_fecha cielo_sin_mercurio 0 ''negocio'' None None = Inr an"
        "puntaje an = max 0 (min 100 (base + w))"
        "factores an = antes @ [fm] @ despues"
        "filter es_de_mercurio (factores an) = [fm]"
      and c: "obtener_posicion_planeta cielo_sin_mercurio 0 MERCURY = None \<longrightarrow>
                w = 10 \<and> fm = \<lparr>texto = TxtMercurioDirecto, tipo = ''positive''\<rparr>"
      using mercurio_ausente_no_omitido [of cielo_sin_mercurio 0 "''negocio''" None None]
      by (elim exE conjE) (rule that; assumption)
    have "w = 10" "fm = \<lparr>texto = TxtMercurioDirecto, tipo = ''positive''\<rparr>"
      using c n by simp_all
    then show ?thesis
      using h by (intro exI [of _ base] exI [of _ antes] exI [of _ despues] exI [of _ an]) simp
  qed
  have b: "\<exists>base antes despues an.
         acumular_sin_mercurio cielo_combusta 0 = Inr (base, antes @ despues)
       \<and> calcular_puntaje_fecha cielo_combusta 0 ''negocio'' None None = Inr an
       \<and> puntaje an = max 0 (min 100 (base + - 20))
       \<and> factores an = antes @ [\<lparr>texto = TxtMercurioRetrogrado, tipo = ''negative''\<rparr>] @ despues
       \<and> filter es_de_mercurio (factores an)
           = [\<lparr>texto = TxtMercurioRetrogrado, tipo = ''negative''\<rparr>]"
  proof -
    obtain base antes despues w fm an where
      h: "acumular_sin_mercurio cielo_combusta 0 = Inr (base, antes @ despues)"
        "calcular_puntaje_fecha cielo_combusta 0 ''negocio'' None None = Inr an"
        "puntaje an = max 0 (min 100 (base + w))"
        "factores an = antes @ [fm] @ despues"
        "filter es_de_mercurio (factores an) = [fm]"
      and c: "\<forall>x. obtener_posicion_planeta cielo_combusta 0 MERCURY = Some x \<and> retrogrado x
                \<longrightarrow> w = - 20 \<and> fm = \<lparr>texto = TxtMercurioRetrogrado, tipo = ''negative''\<rparr>"
      using mercurio_ausente_no_omitido [of cielo_combusta 0 "''negocio''" None None]
      by (elim exE conjE) (rule that; assumption)
    have "w = - 20" "fm = \<lparr>texto = TxtMercurioRetrogrado, tipo = ''negative''\<rparr>"
      using c r by simp_all
    then show ?thesis
      using h by (intro exI [of _ base] exI [of _ antes] exI [of _ despues] exI [of _ an]) simp
  qed
  show ?thesis
    by (intro conjI n r a b cielo_sin_mercurio_omitida
        cielo_sin_mercurio_puntaje)
qed

subsection \<open>Planetary hours and one day of the scan\<close>

lemma regente_en_orden:
  assumes "0 \<le> d" "d < 7"
  shows "\<exists>r i. map_of REGENTES_DIAS d = Some r \<and> list_index ORDEN_HORAS_PLANETARIAS r = Some i"
proof -
  have "d = 0 \<or> d = 1 \<or> d = 2 \<or> d = 3 \<or> d = 4 \<or> d = 5 \<or> d = 6"
    using assms by arith
  then show ?thesis
    by (elim disjE)
       (simp_all add: REGENTES_DIAS_def ORDEN_HORAS_PLANETARIAS_def Jupiter_n_def)
qed

lemma obtener_mejores_horas_total: "\<exists>mh. obtener_mejores_horas f lat lon = Inr mh"
proof -
  have "0 \<le> weekday f" "weekday f < 7"
    by (simp_all add: weekday_def)
  then obtain r i where "map_of REGENTES_DIAS (weekday f) = Some r"
    and "list_index ORDEN_HORAS_PLANETARIAS r = Some i"
    using regente_en_orden by blast
  then show ?thesis
    by (simp add: obtener_mejores_horas_def obtener_horas_planetarias_def ligar_Inr)
qed

lemma analizar_fecha_ok:
  "\<exists>an r. calcular_puntaje_fecha (calc_ut env) (obtener_dia_juliano env f 12)
             (tipo_proyecto sol) (latitud sol) (longitud_geo sol) = Inr an
     \<and> analizar_fecha env sol f = Inr r
     \<and> puntaje r = puntaje an \<and> nivel r = nivel an \<and> factores r = factores an
     \<and> fecha r = f
     \<and> (nivel an = ''avoid'' \<longrightarrow> mejores_horas r = [])
     \<and> (nivel an = ''caution'' \<longrightarrow> mejores_horas r = [Aviso])"
proof -
  obtain an where an: "calcular_puntaje_fecha (calc_ut env) (obtener_dia_juliano env f 12)
             (tipo_proyecto sol) (latitud sol) (longitud_geo sol) = Inr an"
    using calcular_puntaje_fecha_total by blast
  obtain mh where mh: "obtener_mejores_horas f (latitud sol) (longitud_geo sol) = Inr mh"
    using obtener_mejores_horas_total by blast
  show ?thesis
    by (simp add: analizar_fecha_def Let_def an mh ligar_Inr)
qed

lemma analizar_fecha_fecha:
  assumes "analizar_fecha env sol f = Inr r"
  shows "fecha r = f"
  using assms analizar_fecha_ok [of env f sol] by auto

lemma analizar_fecha_avoid:
  assumes "analizar_fecha env sol f = Inr r" "nivel r = ''avoid''"
  shows "mejores_horas r = []"
  using assms analizar_fecha_ok [of env f sol] by auto

subsection \<open>The loop over the dates\<close>

lemma bucle_fechas_Inr:
  assumes "bucle_fechas env sol f h acc = Inr rs"
  shows "\<exists>nuevos. rs = acc @ nuevos \<and> map fecha nuevos = [f..h]
           \<and> (\<forall>r \<in> set nuevos. analizar_fecha env sol (fecha r) = Inr r)"
  using assms
proof (induction env sol f h acc rule: bucle_fechas.induct)
  case (1 env sol f h acc)
  show ?case
  proof (cases "f \<le> h")
    case False
    then show ?thesis
      using "1.prems" by simp
  next
    case True
    obtain r where r: "analizar_fecha env sol f = Inr r"
      using analizar_fecha_ok [of env f sol] by blast
    obtain sig where sig: "sumar_dias f 1 = Inr sig"
      using "1.prems" True r by (cases "sumar_dias f 1") simp_all
    have sig_eq: "sig = f + 1"
      using sig by (simp add: sumar_dias_def split: if_splits)
    have "bucle_fechas env sol sig h (acc @ [r]) = Inr rs"
      using "1.prems" True r sig by simp
    then obtain nuevos where n: "rs = (acc @ [r]) @ nuevos" "map fecha nuevos = [sig..h]"
      "\<forall>x \<in> set nuevos. analizar_fecha env sol (fecha x) = Inr x"
      using "1.IH" [OF True r sig] by blast
    have fr: "fecha r = f"
      using r by (rule analizar_fecha_fecha)
    have "map fecha (r # nuevos) = [f..h]"
      using n(2) fr sig_eq True by (simp add: upto_rec1 [of f h])
    moreover have "\<forall>x \<in> set (r # nuevos). analizar_fecha env sol (fecha x) = Inr x"
      using n(3) r fr by simp
    moreover have "rs = acc @ (r # nuevos)"
      using n(1) by simp
    ultimately show ?thesis
      by blast
  qed
qed

lemma bucle_fechas_total:
  assumes "0 \<le> f" "h < MAXORD"
  shows "\<exists>rs. bucle_fechas env sol f h acc = Inr rs"
  using assms
proof (induction env sol f h acc rule: bucle_fechas.induct)
  case (1 env sol f h acc)
  show ?case
  proof (cases "f \<le> h")
    case False
    then show ?thesis by simp
  next
    case True
    obtain r where r: "analizar_fecha env sol f = Inr r"
      using analizar_fecha_ok [of env f sol] by blast
    have sig: "sumar_dias f 1 = Inr (f + 1)"
      using True "1.prems" by (simp add: sumar_dias_def)
    have "\<exists>rs. bucle_fechas env sol (f + 1) h (acc @ [r]) = Inr rs"
      using "1.IH" [OF True r sig] "1.prems" by simp
    then show ?thesis
      using True r sig by simp
  qed
qed

text \<open>A loop that reaches 9999-12-31 raises on the increment after the last day.\<close>

lemma bucle_fechas_desborda:
  assumes "f \<le> MAXORD"
  shows "bucle_fechas env sol f MAXORD acc = Inl OverflowError"
  using assms
proof (induction env sol f "MAXORD" acc rule: bucle_fechas.induct)
  case (1 env sol f acc)
  obtain r where r: "analizar_fecha env sol f = Inr r"
    using analizar_fecha_ok [of env f sol] by blast
  show ?case
  proof (cases "sumar_dias f 1")
    case (Inl e)
    then have "e = OverflowError"
      by (simp add: sumar_dias_def split: if_splits)
    then show ?thesis
      using "1.prems" r Inl by simp
  next
    case (Inr sig)
    then have "sig \<le> MAXORD"
      by (auto simp: sumar_dias_def split: if_splits)
    then have "bucle_fechas env sol sig MAXORD (acc @ [r]) = Inl OverflowError"
      using "1.hyps" [OF "1.prems" r Inr] by simp
    then show ?thesis
      using "1.prems" r Inr by simp
  qed
qed

subsection \<open>Sorting\<close>

lemma antes_insort:
  assumes "sorted_wrt antes ys" "\<forall>y \<in> set ys. fecha x < fecha y"
  shows "sorted_wrt antes (insort_key (\<lambda>x. - puntaje x) x ys)"
  using assms
proof (induction ys)
  case Nil
  then show ?case by simp
next
  case (Cons y ys)
  show ?case
  proof (cases "- puntaje x \<le> - puntaje y")
    case True
    have "\<forall>z \<in> set (y # ys). antes x z"
    proof
      fix z assume z: "z \<in> set (y # ys)"
      have "puntaje z \<le> puntaje y"
        using z Cons.prems(1) by (auto simp: antes_def)
      then show "antes x z"
        using True z Cons.prems(2) by (auto simp: antes_def)
    qed
    then show ?thesis
      using True Cons.prems(1) by simp
  next
    case False
    have "sorted_wrt antes (insort_key (\<lambda>x. - puntaje x) x ys)"
      using Cons by simp
    moreover have "\<forall>z \<in> set (insort_key (\<lambda>x. - puntaje x) x ys). antes y z"
      using False Cons.prems(1) by (auto simp: set_insort_key antes_def)
    ultimately show ?thesis
      using False by simp
  qed
qed

lemma antes_ordenar:
  assumes "sorted_wrt (\<lambda>a b. fecha a < fecha b) xs"
  shows "sorted_wrt antes (ordenar xs)"
  using assms unfolding ordenar_def
proof (induction xs)
  case Nil
  then show ?case by simp
next
  case (Cons x xs)
  then show ?case
    by (simp add: antes_insort)
qed

lemma fechas_crecientes:
  assumes "map fecha rs = [f..h]"
  shows "sorted_wrt (\<lambda>a b. fecha a < fecha b) rs"
proof -
  have "sorted_wrt (<) [f..h]"
    by (simp add: strict_sorted_iff)
  then have "sorted_wrt (<) (map fecha rs)"
    using assms by simp
  then show ?thesis
    by (simp add: sorted_wrt_map)
qed

subsection \<open>The response of the scan\<close>

lemma tipos_otro:
  "map_of TIPOS_PROYECTO ''otro'' =
     Some \<lparr>casas = [1, 10, 11], planetas = [JUPITER, VENUS], descripcion = ''Proyecto General''\<rparr>"
  by (simp add: TIPOS_PROYECTO_def)

lemma calcular_electiva_Inr:
  assumes "calcular_electiva env sol = Inr resp"
  shows "\<exists>d h rs. bucle_fechas env sol d h [] = Inr rs \<and> fechas resp = take 10 (ordenar rs)
           \<and> estado resp = ''exito''"
proof -
  have c: "cuerpo_electiva env sol = Inr resp"
    using assms by (simp add: calcular_electiva_def split: sum.splits)
  obtain d where d: "parsear env (fecha_desde sol) = Inr d"
    using c by (cases "parsear env (fecha_desde sol)") (simp_all add: cuerpo_electiva_def ligar_def)
  obtain h0 where h0: "parsear env (fecha_hasta sol) = Inr h0"
    using c d by (cases "parsear env (fecha_hasta sol)") (simp_all add: cuerpo_electiva_def ligar_def)
  obtain h where h: "(if h0 - d > 60 then sumar_dias d 60 else Inr h0) = Inr h"
    using c d h0
    by (cases "if h0 - d > 60 then sumar_dias d 60 else Inr h0")
       (simp_all add: cuerpo_electiva_def ligar_def)
  obtain rs where rs: "bucle_fechas env sol d h [] = Inr rs"
    using c d h0 h
    by (cases "bucle_fechas env sol d h []")
       (simp_all add: cuerpo_electiva_def ligar_def tipos_otro Let_def)
  have "fechas resp = take 10 (ordenar rs) \<and> estado resp = ''exito''"
    using c d h0 h rs by (auto simp: cuerpo_electiva_def ligar_def tipos_otro Let_def)
  then show ?thesis
    using rs by blast
qed

lemma calcular_electiva_de_bucle:
  assumes "strptime env (fecha_desde sol) = Some d"
    and "strptime env (fecha_hasta sol) = Some h0"
    and "(if h0 - d > 60 then sumar_dias d 60 else Inr h0) = Inr h"
    and "bucle_fechas env sol d h [] = Inr rs"
  shows "\<exists>resp. calcular_electiva env sol = Inr resp \<and> estado resp = ''exito''
           \<and> fechas resp = take 10 (ordenar rs)"
  using assms
  by (simp add: calcular_electiva_def cuerpo_electiva_def parsear_def ligar_def tipos_otro Let_def)

lemma calcular_electiva_por_bucle:
  assumes "strptime env (fecha_desde sol) = Some d"
    and "strptime env (fecha_hasta sol) = Some h0"
    and "(if h0 - d > 60 then sumar_dias d 60 else Inr h0) = Inr h"
  shows "calcular_electiva env sol =
           (case bucle_fechas env sol d h [] of
              Inl e \<Rightarrow> Inl (HTTPException 500)
            | Inr rs \<Rightarrow> Inr (respuesta_de sol rs))"
  using assms
  by (simp add: calcular_electiva_def cuerpo_electiva_def parsear_def ligar_def tipos_otro
      respuesta_de_def Let_def del: bucle_fechas.simps split: sum.split option.split)

text \<open>Every result of a response is the analysis of its own date.\<close>

lemma calcular_electiva_resultados:
  assumes "calcular_electiva env sol = Inr resp" "r \<in> set (fechas resp)"
  shows "analizar_fecha env sol (fecha r) = Inr r"
proof -
  obtain d h rs where b: "bucle_fechas env sol d h [] = Inr rs"
    and f: "fechas resp = take 10 (ordenar rs)"
    using calcular_electiva_Inr [OF assms(1)] by blast
  have "set (fechas resp) \<subseteq> set rs"
    using f set_take_subset [of 10 "ordenar rs"] by (simp add: ordenar_def)
  then have "r \<in> set rs"
    using assms(2) by blast
  then show ?thesis
    using bucle_fechas_Inr [OF b] by auto
qed

text \<open>So a window of at most 60 days that ends on 9999-12-31 is answered with the
  error 500: the windows that are not truncated return when they end earlier.\<close>

lemma calcular_electiva_desborda:
  assumes "strptime env (fecha_desde sol) = Some d"
    and "strptime env (fecha_hasta sol) = Some MAXORD"
    and "d \<le> MAXORD" and "MAXORD - d \<le> 60"
  shows "calcular_electiva env sol = Inl (HTTPException 500)"
  using assms bucle_fechas_desborda [of d env sol "[]"]
  by (simp add: calcular_electiva_def cuerpo_electiva_def parsear_def ligar_def tipos_otro
      del: bucle_fechas.simps)

subsection \<open>Three days of the example environment\<close>

lemma env_ejemplo_campos:
  "calc_ut env_ejemplo = cielo_alterno"
  "obtener_dia_juliano env_ejemplo f 12 = real_of_int f + 1 / 2"
  by (simp_all add: env_ejemplo_def obtener_dia_juliano_def)

lemma env_ejemplo_strptime:
  "strptime env_ejemplo ''2026-03-01'' = Some 739676"
  "strptime env_ejemplo ''2026-03-03'' = Some 739678"
  "strptime env_ejemplo ''2026-03-10'' = Some 739685"
  "strptime env_ejemplo ''2026-12-31'' = Some 739981"
  "strptime env_ejemplo ''9999-12-31'' = Some 3652059"
  by (simp_all add: env_ejemplo_def)

lemma sol_ejemplo_campos:
  "fecha_desde (sol_ejemplo a b) = a" "fecha_hasta (sol_ejemplo a b) = b"
  "nombre (sol_ejemplo a b) = ''Ana''" "tipo_proyecto (sol_ejemplo a b) = ''negocio''"
  by (simp_all add: sol_ejemplo_def)

lemma horas_lunes:
  "obtener_mejores_horas 739677 lat lon =
     Inr [HoraDe 8 9 Jupiter_n, HoraDe 10 11 ''Sol'', HoraDe 11 12 ''Venus'']"
  by (simp add: obtener_mejores_horas_def obtener_horas_planetarias_def weekday_def
      REGENTES_DIAS_def ORDEN_HORAS_PLANETARIAS_def Jupiter_n_def ligar_Inr upt_rec)

lemma analizar_dia_739676:
  "analizar_fecha env_ejemplo (sol_ejemplo a b) 739676 = Inr (dia_evitar 739676)"
proof -
  have "calcular_puntaje_fecha cielo_alterno (real_of_int 739676 + 1 / 2) tp lat lon
          = calcular_puntaje_fecha cielo_combusta (real_of_int 739676 + 1 / 2) tp lat lon"
    for tp lat lon
    by (rule puntaje_cong, rule cielo_alterno_combusta) simp
  moreover obtain mh where
    "obtener_mejores_horas 739676 (latitud (sol_ejemplo a b)) (longitud_geo (sol_ejemplo a b))
       = Inr mh"
    using obtener_mejores_horas_total by blast
  ultimately show ?thesis
    by (simp add: analizar_fecha_def env_ejemplo_campos cielo_combusta_puntaje ligar_Inr
        dia_evitar_def)
qed

lemma analizar_dia_739678:
  "analizar_fecha env_ejemplo (sol_ejemplo a b) 739678 = Inr (dia_evitar 739678)"
proof -
  have "calcular_puntaje_fecha cielo_alterno (real_of_int 739678 + 1 / 2) tp lat lon
          = calcular_puntaje_fecha cielo_combusta (real_of_int 739678 + 1 / 2) tp lat lon"
    for tp lat lon
    by (rule puntaje_cong, rule cielo_alterno_combusta) simp
  moreover obtain mh where
    "obtener_mejores_horas 739678 (latitud (sol_ejemplo a b)) (longitud_geo (sol_ejemplo a b))
       = Inr mh"
    using obtener_mejores_horas_total by blast
  ultimately show ?thesis
    by (simp add: analizar_fecha_def env_ejemplo_campos cielo_combusta_puntaje ligar_Inr
        dia_evitar_def)
qed

lemma analizar_dia_739677:
  "analizar_fecha env_ejemplo (sol_ejemplo a b) 739677 = Inr dia_bueno"
proof -
  have "calcular_puntaje_fecha cielo_alterno (739677 + 1 / 2) tp lat lon
          = calcular_puntaje_fecha cielo_sin_mercurio (739677 + 1 / 2) tp lat lon"
    for tp lat lon
    by (rule puntaje_cong, rule cielo_alterno_sin_mercurio)
  then show ?thesis
    by (simp add: analizar_fecha_def env_ejemplo_campos cielo_sin_mercurio_puntaje ligar_Inr
        horas_lunes dia_bueno_def)
qed

lemma bucle_tres_dias:
  "bucle_fechas env_ejemplo (sol_ejemplo a b) 739676 739678 [] =
     Inr [dia_evitar 739676, dia_bueno, dia_evitar 739678]"
  by (simp add: analizar_dia_739676 analizar_dia_739677 analizar_dia_739678 sumar_dias_def
      MAXORD_def)

lemma ordenar_tres_dias:
  "take 10 (ordenar [dia_evitar 739676, dia_bueno, dia_evitar 739678]) =
     [dia_bueno, dia_evitar 739676, dia_evitar 739678]"
  by (simp add: ordenar_def dia_evitar_def dia_bueno_def)

lemma escaneo_tres_dias:
  "calcular_electiva env_ejemplo (sol_ejemplo ''2026-03-01'' ''2026-03-03'') =
     Inr respuesta_tres_dias"
  by (simp add: calcular_electiva_def cuerpo_electiva_def parsear_def ligar_def
      env_ejemplo_strptime sol_ejemplo_campos tipos_otro bucle_tres_dias ordenar_tres_dias
      respuesta_tres_dias_def TIPOS_PROYECTO_def del: bucle_fechas.simps)

subsection \<open>A waxing Moon in the Via Combusta with Mercury retrograde\<close>

text \<open>
  C9. At an instant where the Moon is waxing, not void of course and in the Via Combusta,
  Mercury is resolved and retrograde, the Moon has no aspect within orb to Jupiter, Venus,
  Mars or Saturn, the sign of the Moon is not a favourable one, and the Sun and the Moon
  are not in trine or sextile, the score is 50 + 15 - 20 - 20 = 25 and the level is
  "avoid"; the day of the scan that is scored at that instant gets an empty list of best
  hours, in the loop and in every response of the scan that holds that day.
\<close>

theorem escenario_via_combusta_retrogrado:
  assumes "creciente (obtener_fase_lunar swe jd)"
    and "\<not> esta_luna_vacia_de_curso swe jd"
    and "obtener_posicion_planeta swe jd MOON = Some luna"
    and "esta_en_via_combusta (longitud luna)"
    and "obtener_posicion_planeta swe jd MERCURY = Some mercurio"
    and "retrogrado mercurio"
    and "calcular_aspecto swe jd MOON JUPITER = None"
    and "calcular_aspecto swe jd MOON VENUS = None"
    and "calcular_aspecto swe jd MOON MARS = None"
    and "calcular_aspecto swe jd MOON SATURN = None"
    and "signo luna \<notin> set signos_favorables"
    and "\<forall>a. calcular_aspecto swe jd SUN MOON = Some a
             \<longrightarrow> nombre_aspecto a \<notin> set [Trigono, ''Sextil'']"
    and "calc_ut env = swe"
    and "obtener_dia_juliano env f 12 = jd"
  shows "calcular_puntaje_fecha swe jd tp lat lon =
           Inr \<lparr>puntaje = 25, nivel = ''avoid'',
                factores =
                  [\<lparr>texto = TxtLuna (fase (obtener_fase_lunar swe jd)), tipo = ''positive''\<rparr>,
                   \<lparr>texto = TxtViaCombusta (grado luna) (signo luna), tipo = ''negative''\<rparr>,
                   \<lparr>texto = TxtMercurioRetrogrado, tipo = ''negative''\<rparr>]\<rparr>
       \<and> (\<exists>r. analizar_fecha env sol f = Inr r \<and> puntaje r = 25 \<and> nivel r = ''avoid''
              \<and> mejores_horas r = [])
       \<and> (\<forall>resp r. calcular_electiva env sol = Inr resp \<and> r \<in> set (fechas resp) \<and> fecha r = f
              \<longrightarrow> puntaje r = 25 \<and> nivel r = ''avoid'' \<and> mejores_horas r = [])"
proof -
  have r1: "regla_fase (obtener_fase_lunar swe jd) (50, []) =
              Inr (65, [\<lparr>texto = TxtLuna (fase (obtener_fase_lunar swe jd)),
                         tipo = ''positive''\<rparr>])"
    using assms(1) by (simp add: regla_fase_def peso_claves ligar_Inr aplicar_def)
  have r2: "regla_vacia_curso (esta_luna_vacia_de_curso swe jd) st = Inr st" for st
    using assms(2) by (simp add: regla_vacia_curso_def)
  have r3: "regla_via_combusta (obtener_posicion_planeta swe jd MOON) st =
              Inr (fst st - 20, snd st @ [\<lparr>texto = TxtViaCombusta (grado luna) (signo luna),
                                            tipo = ''negative''\<rparr>])" for st
    using assms(3,4) by (simp add: regla_via_combusta_def peso_claves ligar_Inr aplicar_def)
  have r4: "regla_mercurio (obtener_posicion_planeta swe jd MERCURY) st =
              Inr (fst st - 20, snd st @ [\<lparr>texto = TxtMercurioRetrogrado,
                                            tipo = ''negative''\<rparr>])" for st
    using assms(5,6) by (simp add: regla_mercurio_def peso_claves ligar_Inr aplicar_def)
  have r5: "regla_jupiter (calcular_aspecto swe jd MOON JUPITER) st = Inr st" for st
    using assms(7) by (simp add: regla_jupiter_def)
  have r6: "regla_venus (calcular_aspecto swe jd MOON VENUS) st = Inr st" for st
    using assms(8) by (simp add: regla_venus_def)
  have r7: "regla_marte (calcular_aspecto swe jd MOON MARS) st = Inr st" for st
    using assms(9) by (simp add: regla_marte_def)
  have r8: "regla_saturno (calcular_aspecto swe jd MOON SATURN) st = Inr st" for st
    using assms(10) by (simp add: regla_saturno_def)
  have r9: "regla_signo (obtener_posicion_planeta swe jd MOON) st = Inr st" for st
    using assms(3,11) by (simp add: regla_signo_def)
  have r10: "regla_sol_luna (calcular_aspecto swe jd SUN MOON) st = Inr st" for st
    using assms(12) by (cases "calcular_aspecto swe jd SUN MOON") (simp_all add: regla_sol_luna_def)
  have ac: "acumular_reglas swe jd =
              Inr (25, [\<lparr>texto = TxtLuna (fase (obtener_fase_lunar swe jd)), tipo = ''positive''\<rparr>,
                        \<lparr>texto = TxtViaCombusta (grado luna) (signo luna), tipo = ''negative''\<rparr>,
                        \<lparr>texto = TxtMercurioRetrogrado, tipo = ''negative''\<rparr>])"
    by (simp add: acumular_reglas_def Let_def ligar_Inr r1 r2 r3 r4 r5 r6 r7 r8 r9 r10)
  have p: "calcular_puntaje_fecha swe jd tp' lat' lon' =
           Inr \<lparr>puntaje = 25, nivel = ''avoid'',
                factores =
                  [\<lparr>texto = TxtLuna (fase (obtener_fase_lunar swe jd)), tipo = ''positive''\<rparr>,
                   \<lparr>texto = TxtViaCombusta (grado luna) (signo luna), tipo = ''negative''\<rparr>,
                   \<lparr>texto = TxtMercurioRetrogrado, tipo = ''negative''\<rparr>]\<rparr>" for tp' lat' lon'
    by (simp add: calcular_puntaje_fecha_def ac ligar_Inr determinar_nivel_def)
  obtain an r where an: "calcular_puntaje_fecha (calc_ut env) (obtener_dia_juliano env f 12)
             (tipo_proyecto sol) (latitud sol) (longitud_geo sol) = Inr an"
    and r: "analizar_fecha env sol f = Inr r" "puntaje r = puntaje an" "nivel r = nivel an"
      "nivel an = ''avoid'' \<longrightarrow> mejores_horas r = []"
    using analizar_fecha_ok [of env f sol] by blast
  have "puntaje an = 25 \<and> nivel an = ''avoid''"
    using an p [of "tipo_proyecto sol" "latitud sol" "longitud_geo sol"] assms(13,14) by auto
  then have dia: "puntaje r = 25 \<and> nivel r = ''avoid'' \<and> mejores_horas r = []"
    using r by auto
  have "puntaje x = 25 \<and> nivel x = ''avoid'' \<and> mejores_horas x = []"
    if "calcular_electiva env sol = Inr resp" "x \<in> set (fechas resp)" "fecha x = f" for resp x
  proof -
    have "analizar_fecha env sol f = Inr x"
      using calcular_electiva_resultados [OF that(1,2)] that(3) by simp
    then have "x = r"
      using r(1) by simp
    then show ?thesis
      using dia by simp
  qed
  then show ?thesis
    using p r(1) dia by blast
qed

theorem escenario_via_combusta_retrogrado_witness:
  "calcular_puntaje_fecha cielo_alterno (739676 + 1 / 2) ''negocio'' None None =
     Inr \<lparr>puntaje = 25, nivel = ''avoid'',
          factores = [\<lparr>texto = TxtLuna ''Nueva'', tipo = ''positive''\<rparr>,
                      \<lparr>texto = TxtViaCombusta 20 ''Libra'', tipo = ''negative''\<rparr>,
                      \<lparr>texto = TxtMercurioRetrogrado, tipo = ''negative''\<rparr>]\<rparr>
   \<and> (\<exists>r. analizar_fecha env_ejemplo (sol_ejemplo ''2026-03-01'' ''2026-03-03'') 739676 = Inr r
          \<and> puntaje r = 25 \<and> nivel r = ''avoid'' \<and> mejores_horas r = [])
   \<and> calcular_electiva env_ejemplo (sol_ejemplo ''2026-03-01'' ''2026-03-03'') =
       Inr respuesta_tres_dias
   \<and> dia_evitar 739676 \<in> set (fechas respuesta_tres_dias)
   \<and> mejores_horas (dia_evitar 739676) = []"
proof -
  define jd :: real where "jd = 739676 + 1 / 2"
  have c: "\<forall>p. cielo_alterno jd p = cielo_combusta jd p"
    by (rule cielo_alterno_combusta) (simp add: jd_def)
  have pos: "obtener_posicion_planeta cielo_alterno jd p = obtener_posicion_planeta cielo_combusta jd p"
    for p
    using c by (rule posicion_cong)
  have asp: "calcular_aspecto cielo_alterno jd p1 p2 = calcular_aspecto cielo_combusta jd p1 p2"
    for p1 p2
    using c by (rule aspecto_cong)
  have fl: "obtener_fase_lunar cielo_alterno jd = obtener_fase_lunar cielo_combusta jd"
    using c by (rule fase_cong)
  have vc: "esta_luna_vacia_de_curso cielo_alterno jd = esta_luna_vacia_de_curso cielo_combusta jd"
    using c by (rule vacia_cong)
  have h1: "creciente (obtener_fase_lunar cielo_alterno jd)"
    by (simp add: fl cielo_combusta_fase)
  have h2: "\<not> esta_luna_vacia_de_curso cielo_alterno jd"
    by (simp add: vc cielo_combusta_vacia)
  have h3: "obtener_posicion_planeta cielo_alterno jd MOON =
              Some \<lparr>longitud = 200, signo = ''Libra'', numero_signo = 6, grado = 20,
                    velocidad = 13, retrogrado = False\<rparr>"
    by (simp add: pos cielo_combusta_pos)
  have h4: "esta_en_via_combusta (longitud \<lparr>longitud = 200, signo = ''Libra'',
              numero_signo = 6, grado = 20, velocidad = 13, retrogrado = False\<rparr>)"
    by (simp add: esta_en_via_combusta_def VIA_COMBUSTA_INICIO_def VIA_COMBUSTA_FIN_def)
  have h5: "obtener_posicion_planeta cielo_alterno jd MERCURY =
              Some \<lparr>longitud = 170, signo = ''Virgo'', numero_signo = 5, grado = 20,
                    velocidad = - 1, retrogrado = True\<rparr>"
    by (simp add: pos cielo_combusta_pos)
  have h6: "retrogrado \<lparr>longitud = 170, signo = ''Virgo'', numero_signo = 5, grado = 20,
                    velocidad = - 1, retrogrado = True\<rparr>"
    by simp
  have h7: "calcular_aspecto cielo_alterno jd MOON JUPITER = None"
    and h8: "calcular_aspecto cielo_alterno jd MOON VENUS = None"
    and h9: "calcular_aspecto cielo_alterno jd MOON MARS = None"
    and h10: "calcular_aspecto cielo_alterno jd MOON SATURN = None"
    by (simp_all add: asp cielo_combusta_aspectos)
  have h11: "signo \<lparr>longitud = 200, signo = ''Libra'', numero_signo = 6, grado = 20,
                    velocidad = 13, retrogrado = False\<rparr> \<notin> set signos_favorables"
    by (simp add: signos_favorables_def Cancer_def)
  have h12: "\<forall>a. calcular_aspecto cielo_alterno jd SUN MOON = Some a
               \<longrightarrow> nombre_aspecto a \<notin> set [Trigono, ''Sextil'']"
    by (simp add: asp cielo_combusta_aspectos)
  have h13: "calc_ut env_ejemplo = cielo_alterno"
    by (rule env_ejemplo_campos)
  have h14: "obtener_dia_juliano env_ejemplo 739676 12 = jd"
    by (simp add: env_ejemplo_campos jd_def)
  note t = escenario_via_combusta_retrogrado
    [OF h1 h2 h3 h4 h5 h6 h7 h8 h9 h10 h11 h12 h13 h14,
     of "''negocio''" None None "sol_ejemplo ''2026-03-01'' ''2026-03-03''"]
  have a: "calcular_puntaje_fecha cielo_alterno (739676 + 1 / 2) ''negocio'' None None =
     Inr \<lparr>puntaje = 25, nivel = ''avoid'',
          factores = [\<lparr>texto = TxtLuna ''Nueva'', tipo = ''positive''\<rparr>,
                      \<lparr>texto = TxtViaCombusta 20 ''Libra'', tipo = ''negative''\<rparr>,
                      \<lparr>texto = TxtMercurioRetrogrado, tipo = ''negative''\<rparr>]\<rparr>"
    using conjunct1 [OF t] by (simp add: fl cielo_combusta_fase) (simp add: jd_def)
  have b: "\<exists>r. analizar_fecha env_ejemplo (sol_ejemplo ''2026-03-01'' ''2026-03-03'') 739676 = Inr r
          \<and> puntaje r = 25 \<and> nivel r = ''avoid'' \<and> mejores_horas r = []"
    using conjunct2 [OF t] by (rule conjunct1)
  have m: "dia_evitar 739676 \<in> set (fechas respuesta_tres_dias)"
    by (simp add: respuesta_tres_dias_def)
  have "fecha (dia_evitar 739676) = 739676"
    by (simp add: dia_evitar_def)
  then have d: "mejores_horas (dia_evitar 739676) = []"
    using conjunct2 [OF conjunct2 [OF t]] escaneo_tres_dias m by blast
  show ?thesis
    using a b escaneo_tres_dias m d by blast
qed

subsection \<open>The ten best dates\<close>

text \<open>
  C6. Whenever the scan returns a response, it holds at most 10 results, in descending
  order of score, and two results of equal score stand in the ascending order of their
  dates, the order in which the scan produced them.
\<close>

theorem diez_mejores_ordenadas:
  assumes "calcular_electiva env sol = Inr resp"
  shows "length (fechas resp) \<le> 10
       \<and> sorted_wrt (\<lambda>a b. puntaje a \<ge> puntaje b) (fechas resp)
       \<and> sorted_wrt (\<lambda>a b. puntaje a = puntaje b \<longrightarrow> fecha a < fecha b) (fechas resp)"
proof -
  obtain d h rs where b: "bucle_fechas env sol d h [] = Inr rs"
    and f: "fechas resp = take 10 (ordenar rs)"
    using calcular_electiva_Inr [OF assms] by blast
  have "map fecha rs = [d..h]"
    using bucle_fechas_Inr [OF b] by auto
  then have "sorted_wrt antes (ordenar rs)"
    using fechas_crecientes antes_ordenar by blast
  then have a: "sorted_wrt antes (fechas resp)"
    using f by (simp add: sorted_wrt_take)
  have "sorted_wrt (\<lambda>a b. puntaje a \<ge> puntaje b) (fechas resp)"
    using a by (rule sorted_wrt_mono_rel [rotated]) (auto simp: antes_def)
  moreover have "sorted_wrt (\<lambda>a b. puntaje a = puntaje b \<longrightarrow> fecha a < fecha b) (fechas resp)"
    using a by (rule sorted_wrt_mono_rel [rotated]) (auto simp: antes_def)
  ultimately show ?thesis
    using f by simp
qed

theorem diez_mejores_ordenadas_witness:
  "calcular_electiva env_ejemplo (sol_ejemplo ''2026-03-01'' ''2026-03-03'') =
     Inr respuesta_tres_dias
   \<and> map puntaje (fechas respuesta_tres_dias) = [75, 25, 25]
   \<and> map fecha (fechas respuesta_tres_dias) = [739677, 739676, 739678]
   \<and> length (fechas respuesta_tres_dias) \<le> 10
   \<and> sorted_wrt (\<lambda>a b. puntaje a \<ge> puntaje b) (fechas respuesta_tres_dias)
   \<and> sorted_wrt (\<lambda>a b. puntaje a = puntaje b \<longrightarrow> fecha a < fecha b)
        (fechas respuesta_tres_dias)"
proof -
  have "map puntaje (fechas respuesta_tres_dias) = [75, 25, 25]"
    "map fecha (fechas respuesta_tres_dias) = [739677, 739676, 739678]"
    by (simp_all add: respuesta_tres_dias_def dia_bueno_def dia_evitar_def)
  then show ?thesis
    using diez_mejores_ordenadas [OF escaneo_tres_dias] escaneo_tres_dias by blast
qed

subsection \<open>The window of 60 days\<close>

text \<open>
  C7. With both dates parsed to dates of the calendar (from 0001-01-01 to 9999-12-31), the
  loop over the days is run from the start date to the start date plus 60 when the window
  spans more than 60 days, and to the end date as given otherwise, and the response is
  built from the results of that loop. Whenever the loop returns, its results are those
  of exactly the days from the start date to that end date. On a window of more than 60
  days the loop returns and the scan answers with a response, never with an error; on a
  window that is not truncated and ends before 9999-12-31 it does so too.
\<close>

theorem ventana_truncada:
  assumes "strptime env (fecha_desde sol) = Some d"
    and "strptime env (fecha_hasta sol) = Some h"
    and "1 \<le> d" and "h \<le> MAXORD"
  shows "calcular_electiva env sol =
           (case bucle_fechas env sol d (if 60 < h - d then d + 60 else h) [] of
              Inl e \<Rightarrow> Inl (HTTPException 500)
            | Inr rs \<Rightarrow> Inr (respuesta_de sol rs))
       \<and> (\<forall>rs. bucle_fechas env sol d (if 60 < h - d then d + 60 else h) [] = Inr rs \<longrightarrow>
              map fecha rs = [d..(if 60 < h - d then d + 60 else h)]
            \<and> (\<forall>r \<in> set rs. analizar_fecha env sol (fecha r) = Inr r))
       \<and> (60 < h - d \<longrightarrow>
             (\<exists>rs. bucle_fechas env sol d (d + 60) [] = Inr rs
                  \<and> map fecha rs = [d..d + 60]
                  \<and> calcular_electiva env sol = Inr (respuesta_de sol rs)))
       \<and> (h - d \<le> 60 \<and> h < MAXORD \<longrightarrow>
             (\<exists>rs. bucle_fechas env sol d h [] = Inr rs
                  \<and> map fecha rs = [d..h]
                  \<and> calcular_electiva env sol = Inr (respuesta_de sol rs)))"
proof -
  define h' where "h' = (if 60 < h - d then d + 60 else h)"
  have t: "(if h - d > 60 then sumar_dias d 60 else Inr h) = Inr h'"
    using assms(3,4) by (simp add: h'_def sumar_dias_def)
  have c1: "calcular_electiva env sol =
           (case bucle_fechas env sol d h' [] of
              Inl e \<Rightarrow> Inl (HTTPException 500)
            | Inr rs \<Rightarrow> Inr (respuesta_de sol rs))"
    using assms(1,2) t by (rule calcular_electiva_por_bucle)
  have c2: "\<forall>rs. bucle_fechas env sol d h' [] = Inr rs \<longrightarrow>
              map fecha rs = [d..h']
            \<and> (\<forall>r \<in> set rs. analizar_fecha env sol (fecha r) = Inr r)"
  proof (intro allI impI)
    fix rs assume "bucle_fechas env sol d h' [] = Inr rs"
    from bucle_fechas_Inr [OF this]
    show "map fecha rs = [d..h'] \<and> (\<forall>r \<in> set rs. analizar_fecha env sol (fecha r) = Inr r)"
      by auto
  qed
  have ex: "\<exists>rs. bucle_fechas env sol d h' [] = Inr rs
                  \<and> map fecha rs = [d..h']
                  \<and> calcular_electiva env sol = Inr (respuesta_de sol rs)"
    if "h' < MAXORD"
  proof -
    have "0 \<le> d"
      using assms(3) by simp
    from bucle_fechas_total [OF this that]
    obtain rs where rs: "bucle_fechas env sol d h' [] = Inr rs"
      by blast
    have m: "map fecha rs = [d..h']"
      using bucle_fechas_Inr [OF rs] by auto
    have e: "calcular_electiva env sol = Inr (respuesta_de sol rs)"
      using c1 rs by (simp del: bucle_fechas.simps)
    show ?thesis
      by (rule exI [of _ rs]) (intro conjI rs m e)
  qed
  have c3: "60 < h - d \<longrightarrow>
             (\<exists>rs. bucle_fechas env sol d (d + 60) [] = Inr rs
                  \<and> map fecha rs = [d..d + 60]
                  \<and> calcular_electiva env sol = Inr (respuesta_de sol rs))"
  proof
    assume l: "60 < h - d"
    then have "h' < MAXORD"
      using assms(4) by (simp add: h'_def)
    from ex [OF this] show "\<exists>rs. bucle_fechas env sol d (d + 60) [] = Inr rs
                  \<and> map fecha rs = [d..d + 60]
                  \<and> calcular_electiva env sol = Inr (respuesta_de sol rs)"
      using l by (simp add: h'_def del: bucle_fechas.simps)
  qed
  have c4: "h - d \<le> 60 \<and> h < MAXORD \<longrightarrow>
             (\<exists>rs. bucle_fechas env sol d h [] = Inr rs
                  \<and> map fecha rs = [d..h]
                  \<and> calcular_electiva env sol = Inr (respuesta_de sol rs))"
  proof
    assume s: "h - d \<le> 60 \<and> h < MAXORD"
    then have "h' < MAXORD"
      by (simp add: h'_def)
    from ex [OF this] show "\<exists>rs. bucle_fechas env sol d h [] = Inr rs
                  \<and> map fecha rs = [d..h]
                  \<and> calcular_electiva env sol = Inr (respuesta_de sol rs)"
      using s by (simp add: h'_def del: bucle_fechas.simps)
  qed
  show ?thesis
    by (intro conjI c1 [unfolded h'_def] c2 [unfolded h'_def] c3 c4)
qed

theorem ventana_truncada_witness:
  "(\<exists>rs. bucle_fechas env_ejemplo (sol_ejemplo ''2026-03-01'' ''2026-12-31'')
             739676 739736 [] = Inr rs
       \<and> map fecha rs = [739676..739736]
       \<and> calcular_electiva env_ejemplo (sol_ejemplo ''2026-03-01'' ''2026-12-31'') =
           Inr (respuesta_de (sol_ejemplo ''2026-03-01'' ''2026-12-31'') rs))
   \<and> (\<exists>rs. bucle_fechas env_ejemplo (sol_ejemplo ''2026-03-01'' ''2026-03-10'')
             739676 739685 [] = Inr rs
       \<and> map fecha rs = [739676..739685]
       \<and> calcular_electiva env_ejemplo (sol_ejemplo ''2026-03-01'' ''2026-03-10'') =
           Inr (respuesta_de (sol_ejemplo ''2026-03-01'' ''2026-03-10'') rs))
   \<and> calcular_electiva env_ejemplo (sol_ejemplo ''9999-12-31'' ''9999-12-31'') =
       (case bucle_fechas env_ejemplo (sol_ejemplo ''9999-12-31'' ''9999-12-31'')
               3652059 3652059 [] of
          Inl e \<Rightarrow> Inl (HTTPException 500)
        | Inr rs \<Rightarrow> Inr (respuesta_de (sol_ejemplo ''9999-12-31'' ''9999-12-31'') rs))
   \<and> calcular_electiva env_ejemplo (sol_ejemplo ''9999-12-31'' ''9999-12-31'') =
       Inl (HTTPException 500)"
proof -
  have d: "strptime env_ejemplo (fecha_desde (sol_ejemplo ''2026-03-01'' b)) = Some 739676" for b
    by (simp add: env_ejemplo_strptime sol_ejemplo_campos)
  have h1: "strptime env_ejemplo (fecha_hasta (sol_ejemplo a ''2026-12-31'')) = Some 739981" for a
    by (simp add: env_ejemplo_strptime sol_ejemplo_campos)
  have h2: "strptime env_ejemplo (fecha_hasta (sol_ejemplo a ''2026-03-10'')) = Some 739685" for a
    by (simp add: env_ejemplo_strptime sol_ejemplo_campos)
  have df: "strptime env_ejemplo (fecha_desde (sol_ejemplo ''9999-12-31'' b)) = Some 3652059"
    for b
    by (simp add: env_ejemplo_strptime sol_ejemplo_campos)
  have hf: "strptime env_ejemplo (fecha_hasta (sol_ejemplo a ''9999-12-31'')) = Some 3652059"
    for a
    by (simp add: env_ejemplo_strptime sol_ejemplo_campos)
  have r: "(1::int) \<le> 739676" "739981 \<le> MAXORD" "739685 \<le> MAXORD"
    "(1::int) \<le> 3652059" "3652059 \<le> MAXORD"
    by (simp_all add: MAXORD_def)
  have l: "(60::int) < 739981 - 739676"
    by simp
  have s: "(739685::int) - 739676 \<le> 60 \<and> 739685 < MAXORD"
    by (simp add: MAXORD_def)
  have e1: "(739676::int) + 60 = 739736"
    by simp
  have e3: "(if (60::int) < 3652059 - 3652059 then 3652059 + 60 else 3652059) = 3652059"
    by simp
  note tl = ventana_truncada [OF d h1 r(1) r(2)]
  note ts = ventana_truncada [OF d h2 r(1) r(3)]
  note tf = ventana_truncada [OF df hf r(4) r(5)]
  note a = mp [OF tl [THEN conjunct2, THEN conjunct2, THEN conjunct1] l, unfolded e1]
  note b = mp [OF ts [THEN conjunct2, THEN conjunct2, THEN conjunct2] s]
  note c = tf [THEN conjunct1, unfolded e3]
  have f: "calcular_electiva env_ejemplo (sol_ejemplo ''9999-12-31'' ''9999-12-31'') =
       Inl (HTTPException 500)"
    by (rule calcular_electiva_desborda [unfolded MAXORD_def, OF df hf]) simp_all
  show ?thesis
    by (intro conjI a b c f)
qed

subsection \<open>An end date before the start date\<close>

text \<open>
  C2, as the code has it. When both dates parse and the end date is strictly before the
  start date, nothing is validated: the loop body never runs and the scan returns a
  successful response with an empty list of dates.
\<close>

theorem rango_invertido_vacio:
  assumes "strptime env (fecha_desde sol) = Some d"
    and "strptime env (fecha_hasta sol) = Some h"
    and "h < d"
  shows "\<exists>resp. calcular_electiva env sol = Inr resp \<and> estado resp = ''exito''
           \<and> fechas resp = []"
proof -
  have t: "(if h - d > 60 then sumar_dias d 60 else Inr h) = Inr h"
    using assms(3) by simp
  have b: "bucle_fechas env sol d h [] = Inr []"
    using assms(3) by simp
  show ?thesis
    using calcular_electiva_de_bucle [OF assms(1,2) t b] by (simp add: ordenar_def)
qed

theorem rango_invertido_counterexample:
  "strptime env_ejemplo (fecha_desde (sol_ejemplo ''2026-03-10'' ''2026-03-01'')) = Some 739685
   \<and> strptime env_ejemplo (fecha_hasta (sol_ejemplo ''2026-03-10'' ''2026-03-01'')) = Some 739676
   \<and> calcular_electiva env_ejemplo (sol_ejemplo ''2026-03-10'' ''2026-03-01'') =
       Inr \<lparr>estado = ''exito'', nombre_r = ''Ana'', tipo_proyecto_r = ''negocio'',
            descripcion_tipo = ''Negocio / Empresa'', fechas = []\<rparr>"
  by (simp add: env_ejemplo_strptime sol_ejemplo_campos calcular_electiva_def
      cuerpo_electiva_def parsear_def ligar_def tipos_otro ordenar_def TIPOS_PROYECTO_def)

theorem rango_invertido_witness:
  "\<exists>resp. calcular_electiva env_ejemplo (sol_ejemplo ''2026-03-10'' ''2026-03-01'') = Inr resp
      \<and> estado resp = ''exito'' \<and> fechas resp = []"
  using rango_invertido_vacio [of env_ejemplo "sol_ejemplo ''2026-03-10'' ''2026-03-01''"
      739685 739676]
  by (simp add: env_ejemplo_strptime sol_ejemplo_campos)

end
